theory Spec2Isabelle
  imports Complex_Main "HOL-Library.Char_ord" "HOL-Library.List_Lexorder"
begin

section \<open>Exceptions and the external framework\<close>

text \<open>
  The scripts raise Python exceptions and never catch one. Every raise is a value
  \<open>Inl e\<close> of a result type \<open>py_error + 'a\<close>; \<open>FrameworkError\<close> stands for whatever
  an external library call raises.
\<close>

datatype py_error =
    ZeroDivisionError
  | FileNotFoundError string
  | FileExistsError string
  | IsADirectoryError string
  | KeyError string
  | TypeError string
  | AttributeError string
  | ValueError string
  | SystemExit int
  | FrameworkError string

section \<open>quantization/post\_training\_quant.py: evaluate\_tflite\_model\<close>

text \<open>
  The TFLite interpreter and the dataset loader are external. \<open>Interpreter\<close> gives, for a
  model path, the class the interpreter predicts for an image batch (set\_tensor, invoke,
  get\_tensor, dequantization and \<open>np.argmax\<close> of the output);
  \<open>image_dataset_from_directory\<close> gives the elements of the dataset in iteration order
  (batch size 1, so one sample each); \<open>label_argmax\<close> is \<open>np.argmax(labels.numpy())\<close>.
\<close>

record ('i, 'l) tflite_env =
  Interpreter :: "string \<Rightarrow> py_error + ('i \<Rightarrow> nat)"
  image_dataset_from_directory :: "string \<Rightarrow> py_error + ('i \<times> 'l) list"
  label_argmax :: "'l \<Rightarrow> nat"

text \<open>
  The \<open>for images, labels in test_ds\<close> loop of lines 150-183, on the pair
  \<open>(correct, total)\<close>: it breaks as soon as \<open>total >= num_samples\<close>.
\<close>

fun evaluate_loop ::
  "('i \<Rightarrow> nat) \<Rightarrow> ('l \<Rightarrow> nat) \<Rightarrow> int \<Rightarrow> ('i \<times> 'l) list \<Rightarrow> nat \<times> nat \<Rightarrow> nat \<times> nat" where
  "evaluate_loop predict truth num_samples [] (correct, total_n) = (correct, total_n)"
| "evaluate_loop predict truth num_samples ((images, labels) # test_ds) (correct, total_n) =
     (if num_samples \<le> int total_n then (correct, total_n)
      else evaluate_loop predict truth num_samples test_ds
             ((if predict images = truth labels then correct + 1 else correct), total_n + 1))"

text \<open>
  \<open>accuracy = correct / total\<close> is Python's true division of two ints: it raises
  ZeroDivisionError when \<open>total\<close> is 0. The quotient is kept exact (a rational); the
  rounding to a float is not modelled.
\<close>

definition py_truediv :: "int \<Rightarrow> int \<Rightarrow> py_error + rat" where
  "py_truediv a b = (if b = 0 then Inl ZeroDivisionError else Inr (of_int a / of_int b))"

definition evaluate_tflite_model ::
  "('i, 'l) tflite_env \<Rightarrow> string \<Rightarrow> string \<Rightarrow> int \<Rightarrow> py_error + rat" where
  "evaluate_tflite_model env tflite_path test_data_dir num_samples =
     (case Interpreter env tflite_path of
        Inl e \<Rightarrow> Inl e
      | Inr predict \<Rightarrow>
         (case image_dataset_from_directory env test_data_dir of
            Inl e \<Rightarrow> Inl e
          | Inr test_ds \<Rightarrow>
             (case evaluate_loop predict (label_argmax env) num_samples test_ds (0, 0) of
                (correct, total_n) \<Rightarrow> py_truediv (int correct) (int total_n))))"

section \<open>training/utils.py: compute\_class\_weights\<close>

text \<open>
  \<open>os.listdir\<close> and \<open>os.path.isdir\<close> are calls on the real file system; they are the
  two fields of \<open>os_env\<close>. Strings are compared by code point, as Python's \<open>sorted\<close> does.
\<close>

record os_env =
  listdir :: "string \<Rightarrow> py_error + string list"
  isdir :: "string \<Rightarrow> bool"

text \<open>\<open>os.path.join(a, b)\<close> of posixpath, for two components.\<close>

definition path_join :: "string \<Rightarrow> string \<Rightarrow> string" where
  "path_join a b =
     (if b \<noteq> [] \<and> hd b = CHR ''/'' then b
      else if a = [] \<or> last a = CHR ''/'' then a @ b
      else a @ ''/'' @ b)"

text \<open>\<open>str.lower\<close> on the ASCII letters, and \<open>str.endswith\<close> with a tuple of suffixes.\<close>

definition lower_char :: "char \<Rightarrow> char" where
  "lower_char c =
     (if CHR ''A'' \<le> c \<and> c \<le> CHR ''Z'' then char_of (of_char c + (32::nat)) else c)"

definition lower :: "string \<Rightarrow> string" where
  "lower s = map lower_char s"

definition endswith :: "string \<Rightarrow> string \<Rightarrow> bool" where
  "endswith s suffix = (length suffix \<le> length s \<and> drop (length s - length suffix) s = suffix)"

definition endswith_any :: "string \<Rightarrow> string list \<Rightarrow> bool" where
  "endswith_any s suffixes = list_ex (endswith s) suffixes"

definition is_image_file :: "string \<Rightarrow> bool" where
  "is_image_file f = endswith_any (lower f) [''.png'', ''.jpg'', ''.jpeg'']"

text \<open>
  Lines 118-127: for each class name in order, the number of entries of its directory
  with an image extension. A failing \<open>os.listdir\<close> ends the loop with its error.
\<close>

fun count_images :: "os_env \<Rightarrow> string \<Rightarrow> string list \<Rightarrow> py_error + nat list" where
  "count_images os data_dir [] = Inr []"
| "count_images os data_dir (class_name # class_names) =
     (case listdir os (path_join data_dir class_name) of
        Inl e \<Rightarrow> Inl e
      | Inr fs \<Rightarrow>
         (case count_images os data_dir class_names of
            Inl e \<Rightarrow> Inl e
          | Inr counts \<Rightarrow> Inr (length (filter is_image_file fs) # counts)))"

text \<open>
  Lines 130-132: the dict comprehension over \<open>class_counts.items()\<close>, in insertion
  order; the dictionary is the association list of its items. The first zero count
  raises.
\<close>

fun weights_of :: "nat \<Rightarrow> nat \<Rightarrow> (nat \<times> nat) list \<Rightarrow> py_error + (nat \<times> rat) list" where
  "weights_of total_n n [] = Inr []"
| "weights_of total_n n ((i, count) # items) =
     (case py_truediv (int total_n) (int (n * count)) of
        Inl e \<Rightarrow> Inl e
      | Inr w \<Rightarrow>
         (case weights_of total_n n items of
            Inl e \<Rightarrow> Inl e
          | Inr ws \<Rightarrow> Inr ((i, w) # ws)))"

definition class_names_of :: "os_env \<Rightarrow> string \<Rightarrow> py_error + string list" where
  "class_names_of os data_dir =
     (case listdir os data_dir of
        Inl e \<Rightarrow> Inl e
      | Inr ds \<Rightarrow> Inr (sort (filter (\<lambda>d. isdir os (path_join data_dir d)) ds)))"

definition compute_class_weights :: "os_env \<Rightarrow> string \<Rightarrow> py_error + (nat \<times> rat) list" where
  "compute_class_weights os data_dir =
     (case class_names_of os data_dir of
        Inl e \<Rightarrow> Inl e
      | Inr class_names \<Rightarrow>
         (case count_images os data_dir class_names of
            Inl e \<Rightarrow> Inl e
          | Inr counts \<Rightarrow>
             weights_of (sum_list counts) (length counts) (enumerate 0 counts)))"

text \<open>
  The number of image entries of one class directory, as line 120 counts it; used to
  state what \<open>compute_class_weights\<close> returns.
\<close>

definition image_count :: "os_env \<Rightarrow> string \<Rightarrow> string \<Rightarrow> nat" where
  "image_count os data_dir class_name =
     (case listdir os (path_join data_dir class_name) of
        Inl e \<Rightarrow> 0
      | Inr fs \<Rightarrow> length (filter is_image_file fs))"

text \<open>Two small directory trees, used to run \<open>compute_class_weights\<close>.\<close>

definition example_os :: os_env where
  "example_os =
     \<lparr>listdir = (\<lambda>p. if p = ''data'' then Inr [''b'', ''a'', ''notes.txt'']
                     else if p = ''data/a'' then Inr [''1.png'', ''2.JPG'', ''x.txt'']
                     else if p = ''data/b'' then Inr [''3.jpeg'']
                     else Inl (FileNotFoundError p)),
      isdir = (\<lambda>p. p = ''data/a'' \<or> p = ''data/b'')\<rparr>"

definition example_os_empty_class :: os_env where
  "example_os_empty_class =
     \<lparr>listdir = (\<lambda>p. if p = ''data'' then Inr [''a'', ''b'']
                     else if p = ''data/a'' then Inr [''1.png'']
                     else if p = ''data/b'' then Inr [''readme.txt'']
                     else Inl (FileNotFoundError p)),
      isdir = (\<lambda>p. p = ''data/a'' \<or> p = ''data/b'')\<rparr>"

section \<open>The file system\<close>

text \<open>
  The part of the file system the scripts write to and read back: the content of each
  regular file and the set of directories, both keyed by the path string as the script
  passes it (no normalisation of \<open>.\<close>, \<open>..\<close> or links). The working directory and the
  root always exist. The content of a file is the sequence of its characters or bytes.
\<close>

record filesystem =
  files :: "string \<rightharpoonup> string"
  dirs :: "string set"

definition is_slashes :: "string \<Rightarrow> bool" where
  "is_slashes p = list_all (\<lambda>c. c = CHR ''/'') p"

text \<open>
  \<open>os.path.dirname\<close> of posixpath: the text up to the last slash, without its trailing
  slashes unless it consists of slashes only.
\<close>

definition dirname :: "string \<Rightarrow> string" where
  "dirname p =
     (let head = rev (dropWhile (\<lambda>c. c \<noteq> CHR ''/'') (rev p))
      in if head \<noteq> [] \<and> \<not> is_slashes head
         then rev (dropWhile (\<lambda>c. c = CHR ''/'') (rev head))
         else head)"

text \<open>
  The directories \<open>os.makedirs(name, exist_ok=True)\<close> makes sure of: every prefix of
  \<open>name\<close> that ends at a component boundary, the leaf included.
\<close>

definition ancestors :: "string \<Rightarrow> string list" where
  "ancestors name =
     filter (\<lambda>q. q \<noteq> [] \<and> last q \<noteq> CHR ''/'' \<and>
                 (length q = length name \<or> name ! length q = CHR ''/''))
            (map (\<lambda>i. take i name) [1..<Suc (length name)])"

text \<open>
  \<open>os.makedirs(name, exist_ok=True)\<close>: the empty path raises FileNotFoundError (from
  \<open>mkdir\<close>), a component that is a regular file raises FileExistsError, and otherwise
  all the directories exist afterwards.
\<close>

definition makedirs :: "filesystem \<Rightarrow> string \<Rightarrow> py_error + filesystem" where
  "makedirs fs name =
     (if name = [] then Inl (FileNotFoundError name)
      else (case find (\<lambda>q. files fs q \<noteq> None) (ancestors name) of
              Some q \<Rightarrow> Inl (FileExistsError q)
            | None \<Rightarrow> Inr (fs\<lparr>dirs := dirs fs \<union> set (ancestors name)\<rparr>)))"

text \<open>
  \<open>open(path, "w")\<close> or \<open>open(path, "wb")\<close>, one \<open>write\<close> and the close: the file then
  holds exactly what was written. Opening fails on a directory and under a directory
  that does not exist.
\<close>

definition open_write :: "filesystem \<Rightarrow> string \<Rightarrow> string \<Rightarrow> py_error + filesystem" where
  "open_write fs path content =
     (if path = [] then Inl (FileNotFoundError path)
      else if path \<in> dirs fs \<or> last path = CHR ''/'' then Inl (IsADirectoryError path)
      else if dirname path \<noteq> [] \<and> \<not> is_slashes (dirname path) \<and> dirname path \<notin> dirs fs
        then Inl (FileNotFoundError path)
      else Inr (fs\<lparr>files := (files fs)(path \<mapsto> content)\<rparr>))"

definition open_read :: "filesystem \<Rightarrow> string \<Rightarrow> py_error + string" where
  "open_read fs path =
     (case files fs path of
        Some content \<Rightarrow> Inr content
      | None \<Rightarrow> if path \<in> dirs fs then Inl (IsADirectoryError path)
                else Inl (FileNotFoundError path))"

section \<open>training/utils.py: save\_class\_names and load\_class\_names\<close>

text \<open>
  \<open>f.readlines()\<close> of a file opened in text mode with the default \<open>newline=None\<close>:
  a line ends at a line feed, at a carriage return, or at the pair of both, and each
  ending is handed to the program as one line feed. A last line without an ending is
  returned as it is.
\<close>

fun readlines_from :: "string \<Rightarrow> string \<Rightarrow> string list" where
  "readlines_from cur [] = (if cur = [] then [] else [cur])"
| "readlines_from cur (c # cs) =
     (if c = CHR 0x0A then (cur @ [CHR 0x0A]) # readlines_from [] cs
      else if c = CHR 0x0D
        then (cur @ [CHR 0x0A]) # readlines_from [] (if cs \<noteq> [] \<and> hd cs = CHR 0x0A then tl cs else cs)
      else readlines_from (cur @ [c]) cs)"

definition readlines :: "string \<Rightarrow> string list" where
  "readlines content = readlines_from [] content"

text \<open>
  \<open>str.strip()\<close>: removes leading and trailing whitespace, the characters for which
  \<open>str.isspace\<close> holds; among the code points below 256 these are 9 to 13, 28 to 32,
  133 and 160.
\<close>

definition isspace :: "char \<Rightarrow> bool" where
  "isspace c = (of_char c \<in> {9, 10, 11, 12, 13, 28, 29, 30, 31, 32, 133, 160 :: nat})"

definition strip :: "string \<Rightarrow> string" where
  "strip s = rev (dropWhile isspace (rev (dropWhile isspace s)))"

definition save_class_names :: "filesystem \<Rightarrow> string list \<Rightarrow> string \<Rightarrow> py_error + filesystem" where
  "save_class_names fs class_names save_path =
     (case makedirs fs (dirname save_path) of
        Inl e \<Rightarrow> Inl e
      | Inr fs1 \<Rightarrow> open_write fs1 save_path (concat (map (\<lambda>name. name @ [CHR 0x0A]) class_names)))"

definition load_class_names :: "filesystem \<Rightarrow> string \<Rightarrow> py_error + string list" where
  "load_class_names fs file_path =
     (case open_read fs file_path of
        Inl e \<Rightarrow> Inl e
      | Inr content \<Rightarrow> Inr (map strip (readlines content)))"

definition empty_fs :: filesystem where
  "empty_fs = \<lparr>files = Map.empty, dirs = {}\<rparr>"

text \<open>
  Saving a list and loading the same path again, and the two conditions on a name that
  the round trip is stated under: without a line feed, and without leading or trailing
  whitespace.
\<close>

definition save_then_load :: "filesystem \<Rightarrow> string list \<Rightarrow> string \<Rightarrow> py_error + string list" where
  "save_then_load fs class_names path =
     (case save_class_names fs class_names path of
        Inl e \<Rightarrow> Inl e
      | Inr fs1 \<Rightarrow> load_class_names fs1 path)"

definition no_outer_space :: "string \<Rightarrow> bool" where
  "no_outer_space name = (name = [] \<or> (\<not> isspace (hd name) \<and> \<not> isspace (last name)))"

definition no_line_feed :: "string \<Rightarrow> bool" where
  "no_line_feed name = (CHR 0x0A \<notin> set name)"

definition no_carriage_return :: "string \<Rightarrow> bool" where
  "no_carriage_return name = (CHR 0x0D \<notin> set name)"

section \<open>quantization/post\_training\_quant.py: convert\_to\_tflite\<close>

text \<open>
  The converter object of the framework, with the attributes the script assigns. A new
  converter has no optimisation, no representative dataset, the built-in operator set
  and float32 input and output. The representative dataset is the pair of the
  directory and \<open>num_samples\<close> that the lambda of line 77 passes to
  \<open>representative_dataset_generator\<close>.
\<close>

datatype optimize = DEFAULT

datatype ops_set = TFLITE_BUILTINS | TFLITE_BUILTINS_INT8

datatype dtype = float32 | uint8

record 'm converter =
  keras_model :: 'm
  optimizations :: "optimize list"
  representative_dataset :: "(string \<times> int) option"
  supported_ops :: "ops_set list"
  inference_input_type :: dtype
  inference_output_type :: dtype

definition from_keras_model :: "'m \<Rightarrow> 'm converter" where
  "from_keras_model m =
     \<lparr>keras_model = m, optimizations = [], representative_dataset = None,
      supported_ops = [TFLITE_BUILTINS], inference_input_type = float32,
      inference_output_type = float32\<rparr>"

text \<open>\<open>keras.models.load_model\<close> and \<open>converter.convert()\<close> are external.\<close>

record 'm keras_env =
  load_model :: "string \<Rightarrow> py_error + 'm"
  convert :: "'m converter \<Rightarrow> py_error + string"

text \<open>
  Lines 68-88. \<open>if representative_data_dir:\<close> tests the truth value of the argument:
  \<open>None\<close> and the empty string are both false.
\<close>

definition configure_converter :: "bool \<Rightarrow> string option \<Rightarrow> 'm converter \<Rightarrow> 'm converter" where
  "configure_converter quantize_flag representative_data_dir converter =
     (if quantize_flag then
        (case representative_data_dir of
           Some d \<Rightarrow>
             if d \<noteq> [] then
               converter\<lparr>optimizations := [DEFAULT],
                         representative_dataset := Some (d, 1000),
                         supported_ops := [TFLITE_BUILTINS_INT8],
                         inference_input_type := uint8,
                         inference_output_type := uint8\<rparr>
             else converter\<lparr>optimizations := [DEFAULT]\<rparr>
         | None \<Rightarrow> converter\<lparr>optimizations := [DEFAULT]\<rparr>)
      else converter)"

text \<open>Lines 57-88: the converter that \<open>convert()\<close> is then called on.\<close>

definition build_converter ::
  "'m keras_env \<Rightarrow> string \<Rightarrow> bool \<Rightarrow> string option \<Rightarrow> py_error + 'm converter" where
  "build_converter env model_file quantize_flag representative_data_dir =
     (case (if endswith model_file ''.h5'' then load_model env model_file
            else load_model env model_file) of
        Inl e \<Rightarrow> Inl e
      | Inr model \<Rightarrow>
          Inr (configure_converter quantize_flag representative_data_dir (from_keras_model model)))"

text \<open>
  Lines 90-113. After the write, \<open>os.path.getsize(output_path)\<close> succeeds and the
  division of line 108 is guarded by \<open>original_size > 0\<close>; the sizes are only printed.
\<close>

definition convert_to_tflite ::
  "'m keras_env \<Rightarrow> filesystem \<Rightarrow> string \<Rightarrow> string \<Rightarrow> bool \<Rightarrow> string option
     \<Rightarrow> py_error + (string \<times> filesystem)" where
  "convert_to_tflite env fs model_file output_file quantize_flag representative_data_dir =
     (case build_converter env model_file quantize_flag representative_data_dir of
        Inl e \<Rightarrow> Inl e
      | Inr converter \<Rightarrow>
         (case convert env converter of
            Inl e \<Rightarrow> Inl e
          | Inr tflite_model \<Rightarrow>
             (case makedirs fs (dirname output_file) of
                Inl e \<Rightarrow> Inl e
              | Inr fs1 \<Rightarrow>
                 (case open_write fs1 output_file tflite_model of
                    Inl e \<Rightarrow> Inl e
                  | Inr fs2 \<Rightarrow> Inr (output_file, fs2)))))"

section \<open>quantization/post\_training\_quant.py: main\<close>

text \<open>
  The namespace of \<open>argparse\<close>. It starts from the defaults of the \<open>add_argument\<close>
  calls: \<open>--quantize\<close> is declared with \<open>action="store_true", default=True\<close>, the
  other two flags with \<open>action="store_true"\<close> alone (default \<open>False\<close>).
\<close>

record namespace =
  ns_model_path :: "string option"
  ns_output_path :: "string option"
  ns_quantize :: bool
  ns_representative_data :: "string option"
  ns_evaluate :: bool
  ns_test_data :: "string option"
  ns_benchmark :: bool

definition default_namespace :: namespace where
  "default_namespace =
     \<lparr>ns_model_path = None, ns_output_path = None, ns_quantize = True,
      ns_representative_data = None, ns_evaluate = False, ns_test_data = None,
      ns_benchmark = False\<rparr>"

text \<open>
  The options declared by the \<open>add_argument\<close> calls of lines 248-271, in their
  order, each with what it does to the namespace: an option with a value stores the
  next token, a \<open>store_true\<close> flag stores \<open>True\<close>; \<open>-h\<close> is added by argparse itself.
\<close>

datatype action =
    Store "string \<Rightarrow> namespace \<Rightarrow> namespace"
  | StoreTrue "namespace \<Rightarrow> namespace"
  | Help

definition option_action :: "string \<Rightarrow> action option" where
  "option_action tok =
     (if tok = ''--model_path'' then Some (Store (\<lambda>v ns. ns\<lparr>ns_model_path := Some v\<rparr>))
      else if tok = ''--output_path'' then Some (Store (\<lambda>v ns. ns\<lparr>ns_output_path := Some v\<rparr>))
      else if tok = ''--quantize'' then Some (StoreTrue (\<lambda>ns. ns\<lparr>ns_quantize := True\<rparr>))
      else if tok = ''--representative_data''
        then Some (Store (\<lambda>v ns. ns\<lparr>ns_representative_data := Some v\<rparr>))
      else if tok = ''--evaluate'' then Some (StoreTrue (\<lambda>ns. ns\<lparr>ns_evaluate := True\<rparr>))
      else if tok = ''--test_data'' then Some (Store (\<lambda>v ns. ns\<lparr>ns_test_data := Some v\<rparr>))
      else if tok = ''--benchmark'' then Some (StoreTrue (\<lambda>ns. ns\<lparr>ns_benchmark := True\<rparr>))
      else if tok = ''-h'' \<or> tok = ''--help'' then Some Help
      else None)"

text \<open>
  The command line, token by token. An unknown token or a missing value ends the script
  with status 2, \<open>-h\<close> with status 0. Only the full option names are recognised here
  (argparse also takes unambiguous prefixes and \<open>--name=value\<close>).
\<close>

fun consume_args :: "string list \<Rightarrow> namespace \<Rightarrow> py_error + namespace" where
  "consume_args [] ns = Inr ns"
| "consume_args (tok # rest) ns =
     (case option_action tok of
        None \<Rightarrow> Inl (SystemExit 2)
      | Some Help \<Rightarrow> Inl (SystemExit 0)
      | Some (StoreTrue f) \<Rightarrow> consume_args rest (f ns)
      | Some (Store f) \<Rightarrow>
          (case rest of
             [] \<Rightarrow> Inl (SystemExit 2)
           | v # rest' \<Rightarrow> consume_args rest' (f v ns)))"

text \<open>
  \<open>parser.parse_args()\<close>: the two options declared \<open>required=True\<close> must have been
  given.
\<close>

record args =
  args_model_path :: string
  args_output_path :: string
  args_quantize :: bool
  args_representative_data :: "string option"
  args_evaluate :: bool
  args_test_data :: "string option"
  args_benchmark :: bool

definition parse_args :: "string list \<Rightarrow> py_error + args" where
  "parse_args argv =
     (case consume_args argv default_namespace of
        Inl e \<Rightarrow> Inl e
      | Inr ns \<Rightarrow>
         (case (ns_model_path ns, ns_output_path ns) of
            (Some m, Some out) \<Rightarrow>
              Inr \<lparr>args_model_path = m, args_output_path = out,
                   args_quantize = ns_quantize ns,
                   args_representative_data = ns_representative_data ns,
                   args_evaluate = ns_evaluate ns,
                   args_test_data = ns_test_data ns,
                   args_benchmark = ns_benchmark ns\<rparr>
          | _ \<Rightarrow> Inl (SystemExit 2)))"

text \<open>
  \<open>main\<close>, lines 273-289. \<open>benchmark_inference_time\<close> measures wall-clock time and is a
  parameter; \<open>evaluate_tflite_model\<close> is called with its default \<open>num_samples=100\<close>.
  The result is the file system the script leaves.
\<close>

definition main ::
  "'m keras_env \<Rightarrow> ('i, 'l) tflite_env \<Rightarrow> (string \<Rightarrow> py_error + rat) \<Rightarrow> filesystem
     \<Rightarrow> string list \<Rightarrow> py_error + filesystem" where
  "main env tenv benchmark_inference_time fs argv =
     (case parse_args argv of
        Inl e \<Rightarrow> Inl e
      | Inr a \<Rightarrow>
         (case convert_to_tflite env fs (args_model_path a) (args_output_path a)
                 (args_quantize a) (args_representative_data a) of
            Inl e \<Rightarrow> Inl e
          | Inr (tflite_path, fs1) \<Rightarrow>
             (case (case args_test_data a of
                      Some d \<Rightarrow>
                        if args_evaluate a \<and> d \<noteq> []
                        then evaluate_tflite_model tenv tflite_path d 100
                        else Inr 0
                    | None \<Rightarrow> Inr 0) of
                Inl e \<Rightarrow> Inl e
              | Inr accuracy \<Rightarrow>
                 (case (if args_benchmark a then benchmark_inference_time tflite_path
                        else Inr 0) of
                    Inl e \<Rightarrow> Inl e
                  | Inr avg_time \<Rightarrow> Inr fs1))))"

text \<open>A framework that loads any model and converts it to four bytes.\<close>

definition example_keras :: "unit keras_env" where
  "example_keras = \<lparr>load_model = (\<lambda>p. Inr ()), convert = (\<lambda>c. Inr ''TFL3'')\<rparr>"

section \<open>training/evaluate.py: the per-class metrics of evaluate\_model\<close>

text \<open>
  \<open>y_true\<close> and \<open>y_pred\<close> are the class indices that lines 71-80 collect from the
  test dataset and the model (both external), one per sample.
\<close>

text \<open>
  \<open>precision_recall_fscore_support(y_true, y_pred, average=None, labels=...)\<close> of
  scikit-learn, as its documentation defines it: for each label in the order of
  \<open>labels\<close>, the precision \<open>tp / (tp + fp)\<close>, the recall \<open>tp / (tp + fn)\<close>, their harmonic
  mean and the support (the number of true samples of that label). A quotient with a
  zero denominator is reported as 0, with a warning. The quotients are kept exact.
\<close>

definition prf_divide :: "rat \<Rightarrow> rat \<Rightarrow> rat" where
  "prf_divide numerator denominator = (if denominator = 0 then 0 else numerator / denominator)"

definition true_positives :: "nat list \<Rightarrow> nat list \<Rightarrow> nat \<Rightarrow> nat" where
  "true_positives y_true y_pred label =
     length (filter (\<lambda>(t, p). t = label \<and> p = label) (zip y_true y_pred))"

definition label_precision :: "nat list \<Rightarrow> nat list \<Rightarrow> nat \<Rightarrow> rat" where
  "label_precision y_true y_pred label =
     prf_divide (of_nat (true_positives y_true y_pred label)) (of_nat (count_list y_pred label))"

definition label_recall :: "nat list \<Rightarrow> nat list \<Rightarrow> nat \<Rightarrow> rat" where
  "label_recall y_true y_pred label =
     prf_divide (of_nat (true_positives y_true y_pred label)) (of_nat (count_list y_true label))"

definition label_f1 :: "nat list \<Rightarrow> nat list \<Rightarrow> nat \<Rightarrow> rat" where
  "label_f1 y_true y_pred label =
     prf_divide (2 * label_precision y_true y_pred label * label_recall y_true y_pred label)
                (label_precision y_true y_pred label + label_recall y_true y_pred label)"

definition precision_recall_fscore_support ::
  "nat list \<Rightarrow> nat list \<Rightarrow> nat list \<Rightarrow> rat list \<times> rat list \<times> rat list \<times> nat list" where
  "precision_recall_fscore_support y_true y_pred labels =
     (map (label_precision y_true y_pred) labels,
      map (label_recall y_true y_pred) labels,
      map (label_f1 y_true y_pred) labels,
      map (count_list y_true) labels)"

text \<open>
  Lines 91-93: the call with \<open>labels=range(len(class_names))\<close>.
\<close>

definition per_class_metrics ::
  "nat list \<Rightarrow> nat list \<Rightarrow> string list \<Rightarrow> rat list \<times> rat list \<times> rat list \<times> nat list" where
  "per_class_metrics y_true y_pred class_names =
     precision_recall_fscore_support y_true y_pred [0..<length class_names]"


section \<open>Configuration values\<close>

text \<open>
  What \<open>yaml.safe_load\<close> returns: the configuration is a tree of Python values. A
  mapping is the list of its items, each key once. A float is kept as the exact number
  of its literal; the scripts never compute with one.
\<close>

datatype yaml =
    YNone
  | YBool bool
  | YInt int
  | YFloat rat
  | YStr string
  | YList "yaml list"
  | YDict "(string \<times> yaml) list"

text \<open>Sequencing of calls that may raise: the first exception ends the sequence.\<close>

definition bind_err :: "py_error + 'a \<Rightarrow> ('a \<Rightarrow> py_error + 'b) \<Rightarrow> py_error + 'b" where
  "bind_err m f = (case m of Inl e \<Rightarrow> Inl e | Inr x \<Rightarrow> f x)"

text \<open>Python's truth value of a configuration value.\<close>

fun truthy :: "yaml \<Rightarrow> bool" where
  "truthy YNone = False"
| "truthy (YBool b) = b"
| "truthy (YInt i) = (i \<noteq> 0)"
| "truthy (YFloat r) = (r \<noteq> 0)"
| "truthy (YStr s) = (s \<noteq> [])"
| "truthy (YList xs) = (xs \<noteq> [])"
| "truthy (YDict kvs) = (kvs \<noteq> [])"

text \<open>
  \<open>config[key]\<close> with a string key: KeyError on a mapping without the key, TypeError
  on a value that is not a mapping. \<open>config.get(key, default)\<close>: AttributeError on a
  value that is not a mapping.
\<close>

fun subscript :: "yaml \<Rightarrow> string \<Rightarrow> py_error + yaml" where
  "subscript (YDict kvs) k = (case map_of kvs k of Some v \<Rightarrow> Inr v | None \<Rightarrow> Inl (KeyError k))"
| "subscript v k = Inl (TypeError k)"

fun dict_get :: "yaml \<Rightarrow> string \<Rightarrow> yaml \<Rightarrow> py_error + yaml" where
  "dict_get (YDict kvs) k d = (case map_of kvs k of Some v \<Rightarrow> Inr v | None \<Rightarrow> Inr d)"
| "dict_get v k d = Inl (AttributeError ''get'')"

text \<open>
  \<open>key in value\<close> for a string key: among the keys of a mapping, among the items of a
  list, as a substring of a string; TypeError on the other values.
\<close>

definition is_substring :: "string \<Rightarrow> string \<Rightarrow> bool" where
  "is_substring k s = list_ex (\<lambda>i. take (length k) (drop i s) = k) [0..<Suc (length s)]"

fun contains :: "yaml \<Rightarrow> string \<Rightarrow> py_error + bool" where
  "contains (YDict kvs) k = Inr (map_of kvs k \<noteq> None)"
| "contains (YList xs) k = Inr (YStr k \<in> set xs)"
| "contains (YStr s) k = Inr (is_substring k s)"
| "contains v k = Inl (TypeError k)"

text \<open>A value used where the library needs a \<open>str\<close> (a path, a name).\<close>

fun as_str :: "yaml \<Rightarrow> py_error + string" where
  "as_str (YStr s) = Inr s"
| "as_str v = Inl (TypeError ''str expected'')"

text \<open>\<open>value[:2]\<close> and \<open>tuple(value)\<close>: defined on lists and strings.\<close>

fun slice_to :: "nat \<Rightarrow> yaml \<Rightarrow> py_error + yaml" where
  "slice_to n (YList xs) = Inr (YList (take n xs))"
| "slice_to n (YStr s) = Inr (YStr (take n s))"
| "slice_to n v = Inl (TypeError ''not subscriptable'')"

fun tuple_of :: "yaml \<Rightarrow> py_error + yaml" where
  "tuple_of (YList xs) = Inr (YList xs)"
| "tuple_of (YStr s) = Inr (YList (map (\<lambda>c. YStr [c]) s))"
| "tuple_of (YDict kvs) = Inr (YList (map (\<lambda>kv. YStr (fst kv)) kvs))"
| "tuple_of v = Inl (TypeError ''not iterable'')"

section \<open>The training framework\<close>

text \<open>
  What the training script observes of a Keras model: the \<open>trainable\<close> flag of every
  layer of the pretrained base model, the arguments of the last \<open>compile\<close>, and the
  \<open>fit\<close> calls made so far, each with the layer flags and the optimizer in force when it
  was made.
\<close>

datatype optimizer = Adam yaml | SGD yaml

record fit_call =
  fit_epochs :: yaml
  fit_initial_epoch :: yaml
  fit_layers_trainable :: "bool list"
  fit_optimizer :: "optimizer option"
  fit_class_weight :: "(nat \<times> rat) list option"

record keras_state =
  base_layers :: "bool list"
  compiled :: "(optimizer \<times> yaml \<times> yaml) option"
  fit_calls :: "fit_call list"

datatype callback =
    ModelCheckpoint string yaml yaml yaml
  | EarlyStopping yaml yaml yaml yaml
  | ReduceLROnPlateau yaml yaml yaml yaml
  | TensorBoard string yaml yaml
  | CSVLogger string

text \<open>
  The calls into libraries, each with the exception it may raise: the YAML parser, the
  logging module, the seeding functions, the dataset loader (it returns the class
  names), the directory listing, the constructors of the pretrained base model (they
  return its number of layers) and of the classification head, the optimizer
  constructor, \<open>model.compile\<close>, \<open>model.fit\<close>, \<open>model.save\<close> and the clock.
\<close>

record train_env =
  safe_load :: "string \<Rightarrow> py_error + yaml"
  logging_level :: "yaml \<Rightarrow> py_error + unit"
  basicConfig :: "yaml \<Rightarrow> py_error + unit"
  set_seed :: "yaml \<Rightarrow> py_error + unit"
  np_random_seed :: "yaml \<Rightarrow> py_error + unit"
  dataset_from_directory :: "yaml \<Rightarrow> yaml \<Rightarrow> yaml \<Rightarrow> py_error + string list"
  os_calls :: os_env
  application :: "string \<Rightarrow> yaml \<Rightarrow> yaml \<Rightarrow> py_error + nat"
  build_head :: "yaml \<Rightarrow> yaml \<Rightarrow> yaml \<Rightarrow> py_error + unit"
  optimizer_init :: "optimizer \<Rightarrow> py_error + unit"
  model_compile :: "optimizer \<Rightarrow> yaml \<Rightarrow> yaml \<Rightarrow> py_error + unit"
  model_fit :: "fit_call \<Rightarrow> callback list \<Rightarrow> py_error + unit"
  model_save :: "string \<Rightarrow> filesystem \<Rightarrow> py_error + filesystem"
  timestamp :: string

section \<open>training/model.py\<close>

text \<open>
  \<open>create_mobilenetv2_model\<close> and \<open>create_efficientnet_model\<close>: the base model is
  built and frozen (\<open>base_model.trainable = False\<close> sets the flag of every layer),
  then the head is built on it.
\<close>

definition create_mobilenetv2_model ::
  "train_env \<Rightarrow> yaml \<Rightarrow> yaml \<Rightarrow> yaml \<Rightarrow> yaml \<Rightarrow> py_error + keras_state" where
  "create_mobilenetv2_model env input_shape num_classes dropout_rate weights =
     bind_err (application env ''MobileNetV2'' input_shape weights) (\<lambda>n_layers.
     bind_err (build_head env input_shape num_classes dropout_rate) (\<lambda>u.
     Inr \<lparr>base_layers = replicate n_layers False, compiled = None, fit_calls = []\<rparr>))"

definition create_efficientnet_model ::
  "train_env \<Rightarrow> yaml \<Rightarrow> yaml \<Rightarrow> yaml \<Rightarrow> yaml \<Rightarrow> py_error + keras_state" where
  "create_efficientnet_model env input_shape num_classes dropout_rate weights =
     bind_err (application env ''EfficientNetB0'' input_shape weights) (\<lambda>n_layers.
     bind_err (build_head env input_shape num_classes dropout_rate) (\<lambda>u.
     Inr \<lparr>base_layers = replicate n_layers False, compiled = None, fit_calls = []\<rparr>))"

text \<open>
  \<open>get_model\<close>, lines 122-138. \<open>architecture.lower()\<close> needs a string.
\<close>

definition get_model ::
  "train_env \<Rightarrow> yaml \<Rightarrow> yaml \<Rightarrow> yaml \<Rightarrow> yaml \<Rightarrow> yaml \<Rightarrow> py_error + keras_state" where
  "get_model env architecture input_shape num_classes dropout_rate weights =
     (case architecture of
        YStr a \<Rightarrow>
          if lower a = ''mobilenetv2''
            then create_mobilenetv2_model env input_shape num_classes dropout_rate weights
          else if lower a \<in> set [''efficientnet'', ''efficientnet_lite0'']
            then create_efficientnet_model env input_shape num_classes dropout_rate weights
          else Inl (ValueError (''Unknown architecture: '' @ a))
      | _ \<Rightarrow> Inl (AttributeError ''lower''))"

text \<open>
  A slice bound on a list of \<open>n\<close> items: a negative bound counts from the end, and the
  result is clipped to the list.
\<close>

definition slice_index :: "nat \<Rightarrow> int \<Rightarrow> nat" where
  "slice_index n k = (if k < 0 then nat (max 0 (int n + k)) else min (nat k) n)"

text \<open>
  The bounds of \<open>layers[:k]\<close> and \<open>layers[k:]\<close> for a configuration value \<open>k\<close>: an int
  (or a bool, which is an int) gives the same bound twice, \<open>None\<close> gives both slices
  the whole list, any other value raises TypeError.
\<close>

fun slice_bounds :: "nat \<Rightarrow> yaml \<Rightarrow> py_error + nat \<times> nat" where
  "slice_bounds n (YInt k) = Inr (slice_index n k, slice_index n k)"
| "slice_bounds n (YBool b) = Inr (slice_index n (if b then 1 else 0), slice_index n (if b then 1 else 0))"
| "slice_bounds n YNone = Inr (n, 0)"
| "slice_bounds n v = Inl (TypeError ''slice indices must be integers'')"

text \<open>
  \<open>unfreeze_base_model\<close>, lines 87-107, on the layer flags: all true, then false up to
  the first bound, then true from the second bound on.
\<close>

definition unfreeze_base_model :: "bool list \<Rightarrow> yaml \<Rightarrow> py_error + bool list" where
  "unfreeze_base_model layers unfreeze_from_layer =
     bind_err (slice_bounds (length layers) unfreeze_from_layer) (\<lambda>(i, j).
       let all_true = map (\<lambda>l. True) layers;
           frozen = map (\<lambda>l. False) (take i all_true) @ drop i all_true
       in Inr (take j frozen @ map (\<lambda>l. True) (drop j frozen)))"

section \<open>training/utils.py: setup\_logging, load\_dataset, setup\_callbacks\<close>

text \<open>
  \<open>logging.FileHandler(log_file)\<close> opens the file for appending: it is created empty
  when absent and left as it is otherwise.
\<close>

definition open_append :: "filesystem \<Rightarrow> string \<Rightarrow> py_error + filesystem" where
  "open_append fs path =
     (case files fs path of
        Some content \<Rightarrow> Inr fs
      | None \<Rightarrow> open_write fs path [])"

definition setup_logging :: "train_env \<Rightarrow> filesystem \<Rightarrow> yaml \<Rightarrow> py_error + filesystem" where
  "setup_logging env fs config =
     bind_err (dict_get config ''logging'' (YDict [])) (\<lambda>log_config.
     bind_err (dict_get log_config ''level'' (YStr ''INFO'')) (\<lambda>level_name.
     bind_err (logging_level env level_name) (\<lambda>u.
     bind_err (dict_get log_config ''format''
                 (YStr ''%(asctime)s - %(levelname)s - %(message)s'')) (\<lambda>fmt.
     bind_err (basicConfig env fmt) (\<lambda>u.
     bind_err (dict_get log_config ''save_to_file'' (YBool False)) (\<lambda>save_to_file.
     if truthy save_to_file then
       bind_err (dict_get log_config ''log_file'' (YStr ''training.log'')) (\<lambda>log_file.
       bind_err (as_str log_file) (\<lambda>log_path.
       bind_err (makedirs fs (dirname log_path)) (\<lambda>fs1.
       bind_err (open_append fs1 log_path) (\<lambda>fs2.
       bind_err (subscript log_config ''format'') (\<lambda>fmt2. Inr fs2)))))
     else Inr fs))))))"

definition load_dataset ::
  "train_env \<Rightarrow> yaml \<Rightarrow> yaml \<Rightarrow> yaml \<Rightarrow> yaml \<Rightarrow> py_error + string list" where
  "load_dataset env train_dir val_dir batch_size image_size =
     bind_err (dataset_from_directory env train_dir image_size batch_size) (\<lambda>class_names.
     bind_err (dataset_from_directory env val_dir image_size batch_size) (\<lambda>val_names.
     Inr class_names))"

text \<open>\<open>os.path.join\<close> of several components, each of which must be a string.\<close>

fun join_all :: "string \<Rightarrow> yaml list \<Rightarrow> py_error + string" where
  "join_all p [] = Inr p"
| "join_all p (v # vs) = bind_err (as_str v) (\<lambda>s. join_all (path_join p s) vs)"

definition join_paths :: "yaml list \<Rightarrow> py_error + string" where
  "join_paths vs = (case vs of [] \<Rightarrow> Inr [] | v # rest \<Rightarrow> bind_err (as_str v) (\<lambda>s. join_all s rest))"

text \<open>
  \<open>setup_callbacks\<close>, lines 137-217, one definition per block of the function; each
  takes the callbacks and the file system so far.
\<close>

definition checkpoint_callback ::
  "filesystem \<Rightarrow> yaml \<Rightarrow> yaml \<Rightarrow> callback list \<Rightarrow> py_error + callback list \<times> filesystem" where
  "checkpoint_callback fs config callback_config callbacks =
     bind_err (dict_get callback_config ''checkpoint'' (YDict [])) (\<lambda>c.
     bind_err (dict_get c ''enabled'' (YBool True)) (\<lambda>enabled.
     if truthy enabled then
       bind_err (subscript callback_config ''checkpoint'') (\<lambda>checkpoint_config.
       bind_err (subscript config ''export'') (\<lambda>export.
       bind_err (subscript export ''save_dir'') (\<lambda>save_dir.
       bind_err (subscript config ''model'') (\<lambda>model_config.
       bind_err (subscript model_config ''architecture'') (\<lambda>architecture.
       bind_err (join_paths [save_dir, architecture, YStr ''checkpoints'', YStr ''best_model.h5''])
         (\<lambda>checkpoint_path.
       bind_err (makedirs fs (dirname checkpoint_path)) (\<lambda>fs1.
       bind_err (dict_get checkpoint_config ''monitor'' (YStr ''val_accuracy'')) (\<lambda>monitor.
       bind_err (dict_get checkpoint_config ''save_best_only'' (YBool True)) (\<lambda>save_best_only.
       bind_err (dict_get checkpoint_config ''mode'' (YStr ''max'')) (\<lambda>mode.
       Inr (callbacks @ [ModelCheckpoint checkpoint_path monitor save_best_only mode], fs1)
       ))))))))))
     else Inr (callbacks, fs)))"

definition early_stopping_callback ::
  "yaml \<Rightarrow> callback list \<Rightarrow> py_error + callback list" where
  "early_stopping_callback callback_config callbacks =
     bind_err (dict_get callback_config ''early_stopping'' (YDict [])) (\<lambda>c.
     bind_err (dict_get c ''enabled'' (YBool True)) (\<lambda>enabled.
     if truthy enabled then
       bind_err (subscript callback_config ''early_stopping'') (\<lambda>es_config.
       bind_err (dict_get es_config ''monitor'' (YStr ''val_loss'')) (\<lambda>monitor.
       bind_err (dict_get es_config ''patience'' (YInt 10)) (\<lambda>patience.
       bind_err (dict_get es_config ''restore_best_weights'' (YBool True)) (\<lambda>restore.
       bind_err (dict_get es_config ''mode'' (YStr ''min'')) (\<lambda>mode.
       Inr (callbacks @ [EarlyStopping monitor patience restore mode]))))))
     else Inr callbacks))"

definition lr_schedule_callback ::
  "yaml \<Rightarrow> callback list \<Rightarrow> py_error + callback list" where
  "lr_schedule_callback config callbacks =
     bind_err (dict_get config ''lr_schedule'' (YDict [])) (\<lambda>c.
     bind_err (dict_get c ''type'' YNone) (\<lambda>schedule_type.
     if schedule_type = YStr ''reduce_on_plateau'' then
       bind_err (subscript config ''lr_schedule'') (\<lambda>lr_config.
       bind_err (dict_get lr_config ''monitor'' (YStr ''val_loss'')) (\<lambda>monitor.
       bind_err (dict_get lr_config ''factor'' (YFloat (1 / 2))) (\<lambda>factor.
       bind_err (dict_get lr_config ''patience'' (YInt 5)) (\<lambda>patience.
       bind_err (dict_get lr_config ''min_lr'' (YFloat (1 / 10000000))) (\<lambda>min_lr.
       Inr (callbacks @ [ReduceLROnPlateau monitor factor patience min_lr]))))))
     else Inr callbacks))"

definition tensorboard_callback ::
  "filesystem \<Rightarrow> yaml \<Rightarrow> callback list \<Rightarrow> py_error + callback list \<times> filesystem" where
  "tensorboard_callback fs callback_config callbacks =
     bind_err (dict_get callback_config ''tensorboard'' (YDict [])) (\<lambda>c.
     bind_err (dict_get c ''enabled'' (YBool False)) (\<lambda>enabled.
     if truthy enabled then
       bind_err (subscript callback_config ''tensorboard'') (\<lambda>tb_config.
       bind_err (dict_get tb_config ''log_dir'' (YStr ''../logs'')) (\<lambda>log_dir.
       bind_err (as_str log_dir) (\<lambda>log_path.
       bind_err (makedirs fs log_path) (\<lambda>fs1.
       bind_err (dict_get tb_config ''histogram_freq'' (YInt 1)) (\<lambda>histogram_freq.
       bind_err (dict_get tb_config ''write_graph'' (YBool True)) (\<lambda>write_graph.
       Inr (callbacks @ [TensorBoard log_path histogram_freq write_graph], fs1)))))))
     else Inr (callbacks, fs)))"

definition csv_logger_callback ::
  "filesystem \<Rightarrow> yaml \<Rightarrow> callback list \<Rightarrow> py_error + callback list \<times> filesystem" where
  "csv_logger_callback fs callback_config callbacks =
     bind_err (dict_get callback_config ''csv_logger'' (YDict [])) (\<lambda>c.
     bind_err (dict_get c ''enabled'' (YBool True)) (\<lambda>enabled.
     if truthy enabled then
       bind_err (subscript callback_config ''csv_logger'') (\<lambda>csv_config.
       bind_err (dict_get csv_config ''filename'' (YStr ''../results/training_log.csv''))
         (\<lambda>filename.
       bind_err (as_str filename) (\<lambda>csv_path.
       bind_err (makedirs fs (dirname csv_path)) (\<lambda>fs1.
       Inr (callbacks @ [CSVLogger csv_path], fs1)))))
     else Inr (callbacks, fs)))"

definition setup_callbacks ::
  "filesystem \<Rightarrow> yaml \<Rightarrow> py_error + callback list \<times> filesystem" where
  "setup_callbacks fs config =
     bind_err (dict_get config ''callbacks'' (YDict [])) (\<lambda>callback_config.
     bind_err (checkpoint_callback fs config callback_config []) (\<lambda>(cbs1, fs1).
     bind_err (early_stopping_callback callback_config cbs1) (\<lambda>cbs2.
     bind_err (lr_schedule_callback config cbs2) (\<lambda>cbs3.
     bind_err (tensorboard_callback fs1 callback_config cbs3) (\<lambda>(cbs4, fs2).
     csv_logger_callback fs2 callback_config cbs4)))))"

section \<open>training/train.py\<close>

definition load_config :: "train_env \<Rightarrow> filesystem \<Rightarrow> string \<Rightarrow> py_error + yaml" where
  "load_config env fs config_path =
     bind_err (open_read fs config_path) (\<lambda>content. safe_load env content)"

text \<open>\<open>name.lower()\<close> on a configuration value: AttributeError unless it is a string.\<close>

fun str_lower :: "yaml \<Rightarrow> py_error + string" where
  "str_lower (YStr s) = Inr (lower s)"
| "str_lower v = Inl (AttributeError ''lower'')"

definition compile_model :: "train_env \<Rightarrow> keras_state \<Rightarrow> yaml \<Rightarrow> py_error + keras_state" where
  "compile_model env model config =
     bind_err (subscript config ''optimizer'') (\<lambda>optimizer_config.
     bind_err (subscript optimizer_config ''learning_rate'') (\<lambda>lr.
     bind_err (subscript optimizer_config ''name'') (\<lambda>name.
     bind_err (str_lower name) (\<lambda>lname.
     let opt = (if lname = ''adam'' then Adam lr
                else if lname = ''sgd'' then SGD lr
                else Adam lr)
     in
     bind_err (optimizer_init env opt) (\<lambda>u.
     bind_err (subscript config ''loss'') (\<lambda>loss_config.
     bind_err (subscript loss_config ''name'') (\<lambda>loss.
     bind_err (contains config ''metrics'') (\<lambda>has_metrics.
     bind_err (if has_metrics then subscript config ''metrics''
               else Inr (YList [YStr ''accuracy''])) (\<lambda>metrics.
     bind_err (model_compile env opt loss metrics) (\<lambda>u.
     Inr (model\<lparr>compiled := Some (opt, loss, metrics)\<rparr>)))))))))))"

text \<open>
  \<open>model.fit\<close>: the call is recorded with the layer flags and the optimizer in force.
  Keras starts at \<open>initial_epoch = 0\<close> unless told otherwise.
\<close>

definition fit ::
  "train_env \<Rightarrow> keras_state \<Rightarrow> yaml \<Rightarrow> yaml \<Rightarrow> callback list \<Rightarrow> (nat \<times> rat) list option
     \<Rightarrow> py_error + keras_state" where
  "fit env model epochs initial_epoch callbacks class_weight =
     (let call = \<lparr>fit_epochs = epochs, fit_initial_epoch = initial_epoch,
                  fit_layers_trainable = base_layers model,
                  fit_optimizer = map_option fst (compiled model),
                  fit_class_weight = class_weight\<rparr>
      in bind_err (model_fit env call callbacks) (\<lambda>u.
           Inr (model\<lparr>fit_calls := fit_calls model @ [call]\<rparr>)))"

text \<open>Lines 67-71: the log line that reads \<open>model.architecture\<close>, and the two seeds.\<close>

definition train_seed :: "train_env \<Rightarrow> yaml \<Rightarrow> py_error + unit" where
  "train_seed env config =
     bind_err (subscript config ''model'') (\<lambda>model_config.
     bind_err (subscript model_config ''architecture'') (\<lambda>architecture.
     bind_err (subscript config ''seed'') (\<lambda>seed.
     bind_err (set_seed env seed) (\<lambda>u.
     bind_err (subscript config ''seed'') (\<lambda>seed2.
     np_random_seed env seed2)))))"

text \<open>Lines 73-83: the arguments of \<open>load_dataset\<close> are evaluated from left to right.\<close>

definition train_load_datasets :: "train_env \<Rightarrow> yaml \<Rightarrow> py_error + string list" where
  "train_load_datasets env config =
     bind_err (subscript config ''dataset'') (\<lambda>d1.
     bind_err (subscript d1 ''train_dir'') (\<lambda>train_dir.
     bind_err (subscript config ''dataset'') (\<lambda>d2.
     bind_err (subscript d2 ''val_dir'') (\<lambda>val_dir.
     bind_err (subscript config ''dataset'') (\<lambda>d3.
     bind_err (subscript d3 ''batch_size'') (\<lambda>batch_size.
     bind_err (subscript config ''model'') (\<lambda>model_config.
     bind_err (subscript model_config ''input_shape'') (\<lambda>input_shape.
     bind_err (slice_to 2 input_shape) (\<lambda>sliced.
     bind_err (tuple_of sliced) (\<lambda>image_size.
     load_dataset env train_dir val_dir batch_size image_size))))))))))"

text \<open>Lines 85-89.\<close>

definition train_class_weights :: "train_env \<Rightarrow> yaml \<Rightarrow> py_error + (nat \<times> rat) list option" where
  "train_class_weights env config =
     bind_err (dict_get config ''class_weights'' (YDict [])) (\<lambda>c.
     bind_err (dict_get c ''enabled'' (YBool False)) (\<lambda>enabled.
     if truthy enabled then
       bind_err (subscript config ''dataset'') (\<lambda>d.
       bind_err (subscript d ''train_dir'') (\<lambda>train_dir.
       bind_err (as_str train_dir) (\<lambda>data_dir.
       bind_err (compute_class_weights (os_calls env) data_dir) (\<lambda>w. Inr (Some w)))))
     else Inr None))"

text \<open>Lines 91-99.\<close>

definition train_create_model :: "train_env \<Rightarrow> yaml \<Rightarrow> py_error + keras_state" where
  "train_create_model env config =
     bind_err (subscript config ''model'') (\<lambda>m0.
     bind_err (subscript m0 ''architecture'') (\<lambda>a0.
     bind_err (subscript config ''model'') (\<lambda>m1.
     bind_err (subscript m1 ''architecture'') (\<lambda>architecture.
     bind_err (subscript config ''model'') (\<lambda>m2.
     bind_err (subscript m2 ''input_shape'') (\<lambda>shape.
     bind_err (tuple_of shape) (\<lambda>input_shape.
     bind_err (subscript config ''model'') (\<lambda>m3.
     bind_err (subscript m3 ''num_classes'') (\<lambda>num_classes.
     bind_err (subscript config ''model'') (\<lambda>m4.
     bind_err (subscript m4 ''dropout_rate'') (\<lambda>dropout_rate.
     bind_err (subscript config ''model'') (\<lambda>m5.
     bind_err (subscript m5 ''weights'') (\<lambda>weights.
     get_model env architecture input_shape num_classes dropout_rate weights)))))))))))))"

text \<open>
  Lines 111-153: the first \<open>fit\<close>, and under \<open>training.freeze_base\<close> (default
  \<open>True\<close>) the unfreezing, the second \<open>compile\<close> and the second \<open>fit\<close>.
\<close>

definition train_phases ::
  "train_env \<Rightarrow> yaml \<Rightarrow> keras_state \<Rightarrow> callback list \<Rightarrow> (nat \<times> rat) list option
     \<Rightarrow> py_error + keras_state" where
  "train_phases env config model callbacks class_weights =
     bind_err (subscript config ''training'') (\<lambda>t1.
     bind_err (dict_get t1 ''unfreeze_epoch'' (YInt 10)) (\<lambda>initial_epochs.
     bind_err (fit env model initial_epochs (YInt 0) callbacks class_weights) (\<lambda>model1.
     bind_err (subscript config ''training'') (\<lambda>t2.
     bind_err (dict_get t2 ''freeze_base'' (YBool True)) (\<lambda>freeze_base.
     if truthy freeze_base then
       bind_err (subscript config ''training'') (\<lambda>t3.
       bind_err (dict_get t3 ''freeze_until_layer'' (YInt 100)) (\<lambda>unfreeze_from.
       bind_err (unfreeze_base_model (base_layers model1) unfreeze_from) (\<lambda>layers.
       bind_err (subscript config ''training'') (\<lambda>t4.
       bind_err (dict_get t4 ''fine_tune_learning_rate'' (YFloat (1 / 10000))) (\<lambda>fine_tune_lr.
       bind_err (optimizer_init env (Adam fine_tune_lr)) (\<lambda>u.
       bind_err (subscript config ''loss'') (\<lambda>loss_config.
       bind_err (subscript loss_config ''name'') (\<lambda>loss.
       bind_err (dict_get config ''metrics'' (YList [YStr ''accuracy''])) (\<lambda>metrics.
       bind_err (model_compile env (Adam fine_tune_lr) loss metrics) (\<lambda>u.
       bind_err (subscript config ''training'') (\<lambda>t5.
       bind_err (subscript t5 ''epochs'') (\<lambda>total_epochs.
       fit env (model1\<lparr>base_layers := layers,
                         compiled := Some (Adam fine_tune_lr, loss, metrics)\<rparr>)
           total_epochs initial_epochs callbacks class_weights))))))))))))
     else Inr model1)))))"

text \<open>
  Lines 155-171. The text an f-string takes from a value that is a string; for another
  value \<open>os.path.join\<close> has raised before the text is used.
\<close>

fun format_str :: "yaml \<Rightarrow> string" where
  "format_str (YStr s) = s"
| "format_str v = []"

definition save_final_model :: "train_env \<Rightarrow> filesystem \<Rightarrow> yaml \<Rightarrow> py_error + filesystem" where
  "save_final_model env fs config =
     bind_err (subscript config ''export'') (\<lambda>e1.
     bind_err (subscript e1 ''save_dir'') (\<lambda>save_dir.
     bind_err (subscript config ''model'') (\<lambda>m1.
     bind_err (subscript m1 ''architecture'') (\<lambda>model_name.
     bind_err (subscript config ''export'') (\<lambda>e2.
     bind_err (subscript e2 ''formats'') (\<lambda>formats.
     bind_err (contains formats ''h5'') (\<lambda>has_h5.
     bind_err (if has_h5 then
                 bind_err (join_paths [save_dir, model_name,
                             YStr (format_str model_name @ ''_'' @ timestamp env @ ''.h5'')])
                   (\<lambda>h5_path.
                 bind_err (makedirs fs (dirname h5_path)) (\<lambda>fs1.
                 model_save env h5_path fs1))
               else Inr fs) (\<lambda>fs2.
     bind_err (subscript config ''export'') (\<lambda>e3.
     bind_err (subscript e3 ''formats'') (\<lambda>formats2.
     bind_err (contains formats2 ''saved_model'') (\<lambda>has_sm.
     if has_sm then
       bind_err (join_paths [save_dir, model_name, YStr (''saved_model_'' @ timestamp env)])
         (\<lambda>sm_path. model_save env sm_path fs2)
     else Inr fs2)))))))))))"

text \<open>\<open>train_model\<close>, lines 58-175: the model and the file system it leaves.\<close>

definition train_model ::
  "train_env \<Rightarrow> filesystem \<Rightarrow> string \<Rightarrow> py_error + keras_state \<times> filesystem" where
  "train_model env fs config_path =
     bind_err (load_config env fs config_path) (\<lambda>config.
     bind_err (setup_logging env fs config) (\<lambda>fs1.
     bind_err (train_seed env config) (\<lambda>u.
     bind_err (train_load_datasets env config) (\<lambda>class_names.
     bind_err (train_class_weights env config) (\<lambda>class_weights.
     bind_err (train_create_model env config) (\<lambda>model.
     bind_err (compile_model env model config) (\<lambda>model1.
     bind_err (setup_callbacks fs1 config) (\<lambda>(callbacks, fs2).
     bind_err (train_phases env config model1 callbacks class_weights) (\<lambda>model2.
     bind_err (save_final_model env fs2 config) (\<lambda>fs3.
     Inr (model2, fs3)))))))))))"



text \<open>
  A configuration with every required key, for a given \<open>training\<close> section, and a
  framework in which every library call succeeds: the parser returns that configuration,
  the base model has five layers, and \<open>model.save\<close> writes one file.
\<close>

definition example_config :: "(string \<times> yaml) list \<Rightarrow> yaml" where
  "example_config training =
     YDict [(''seed'', YInt 42),
            (''dataset'', YDict [(''train_dir'', YStr ''data/train''),
                                (''val_dir'', YStr ''data/val''),
                                (''batch_size'', YInt 32)]),
            (''model'', YDict [(''architecture'', YStr ''MobileNetV2''),
                              (''input_shape'', YList [YInt 224, YInt 224, YInt 3]),
                              (''num_classes'', YInt 30),
                              (''dropout_rate'', YFloat (1 / 2)),
                              (''weights'', YStr ''imagenet'')]),
            (''optimizer'', YDict [(''name'', YStr ''adam''),
                                  (''learning_rate'', YFloat (1 / 1000))]),
            (''loss'', YDict [(''name'', YStr ''categorical_crossentropy'')]),
            (''training'', YDict training),
            (''callbacks'', YDict [(''checkpoint'', YDict []),
                                  (''early_stopping'', YDict []),
                                  (''csv_logger'', YDict [])]),
            (''export'', YDict [(''save_dir'', YStr ''../models''),
                               (''formats'', YList [YStr ''h5''])])]"

definition example_train_env :: "yaml \<Rightarrow> train_env" where
  "example_train_env config =
     \<lparr>safe_load = (\<lambda>content. Inr config),
      logging_level = (\<lambda>name. Inr ()),
      basicConfig = (\<lambda>fmt. Inr ()),
      set_seed = (\<lambda>seed. Inr ()),
      np_random_seed = (\<lambda>seed. Inr ()),
      dataset_from_directory = (\<lambda>directory image_size batch_size. Inr [''healthy'', ''rust'']),
      os_calls = example_os,
      application = (\<lambda>name input_shape weights. Inr 5),
      build_head = (\<lambda>input_shape num_classes dropout_rate. Inr ()),
      optimizer_init = (\<lambda>opt. Inr ()),
      model_compile = (\<lambda>opt loss metrics. Inr ()),
      model_fit = (\<lambda>call callbacks. Inr ()),
      model_save = (\<lambda>path fs. open_write fs path ''model''),
      timestamp = ''20240101_120000''\<rparr>"

definition example_fs :: filesystem where
  "example_fs = \<lparr>files = [''config.yaml'' \<mapsto> ''seed: 42''], dirs = {}\<rparr>"

text \<open>The \<open>fit\<close> calls of a run of \<open>train_model\<close>.\<close>

definition fit_calls_of :: "py_error + keras_state \<times> filesystem \<Rightarrow> py_error + fit_call list" where
  "fit_calls_of r = (case r of Inl e \<Rightarrow> Inl e | Inr (model, fs) \<Rightarrow> Inr (fit_calls model))"




section \<open>Properties\<close>

lemma evaluate_loop_closed:
  "evaluate_loop predict truth num_samples test_ds (correct, total_n) =
     (correct + length (filter (\<lambda>s. predict (fst s) = truth (snd s))
                          (take (nat (num_samples - int total_n)) test_ds)),
      total_n + min (nat (num_samples - int total_n)) (length test_ds))"
proof (induction test_ds arbitrary: correct total_n)
  case Nil
  then show ?case by simp
next
  case (Cons s test_ds)
  obtain images labels where s: "s = (images, labels)" by (cases s)
  show ?case
  proof (cases "num_samples \<le> int total_n")
    case True
    then show ?thesis using s by simp
  next
    case False
    then obtain k where k: "nat (num_samples - int total_n) = Suc k"
      by (cases "nat (num_samples - int total_n)") auto
    then have k': "nat (num_samples - int (total_n + 1)) = k" by simp
    show ?thesis using False s k k' Cons.IH [of "if predict images = truth labels then correct + 1 else correct" "total_n + 1"]
      by (simp del: of_nat_Suc of_nat_add)
  qed
qed

lemma evaluate_loop_start:
  assumes "evaluate_loop predict truth num_samples test_ds (0, 0) = (correct, total_n)"
  shows "correct \<le> total_n" and "total_n = min (nat num_samples) (length test_ds)"
proof -
  from assms have c: "correct = length (filter (\<lambda>s. predict (fst s) = truth (snd s)) (take (nat num_samples) test_ds))"
    and t: "total_n = min (nat num_samples) (length test_ds)"
    by (simp_all add: evaluate_loop_closed)
  show "total_n = min (nat num_samples) (length test_ds)" by (rule t)
  have "correct \<le> length (take (nat num_samples) test_ds)"
    unfolding c by (rule length_filter_le)
  then show "correct \<le> total_n" using t by simp
qed

text \<open>
  Claim C3. When \<open>evaluate_tflite_model\<close> processes at least one sample, it returns
  \<open>correct / total\<close> with \<open>0 \<le> correct \<le> total\<close> and \<open>total\<close> the minimum of
  \<open>num_samples\<close> and the number of samples of the dataset, so the accuracy lies in
  the closed interval from 0 to 1.
\<close>

theorem evaluate_tflite_model_accuracy:
  assumes "Interpreter env tflite_path = Inr predict"
    and "image_dataset_from_directory env test_data_dir = Inr test_ds"
    and "evaluate_loop predict (label_argmax env) num_samples test_ds (0, 0) = (correct, total_n)"
    and "0 < total_n"
  shows "evaluate_tflite_model env tflite_path test_data_dir num_samples
           = Inr (of_nat correct / of_nat total_n)
         \<and> correct \<le> total_n
         \<and> int total_n = min num_samples (int (length test_ds))
         \<and> (0::rat) \<le> of_nat correct / of_nat total_n
         \<and> (of_nat correct / of_nat total_n :: rat) \<le> 1"
proof -
  have le: "correct \<le> total_n" and t: "total_n = min (nat num_samples) (length test_ds)"
    using evaluate_loop_start [OF assms(3)] by simp_all
  have "evaluate_tflite_model env tflite_path test_data_dir num_samples
           = Inr (of_nat correct / of_nat total_n)"
    using assms by (simp add: evaluate_tflite_model_def py_truediv_def)
  moreover have "int total_n = min num_samples (int (length test_ds))"
    using t assms(4) by (cases "0 \<le> num_samples") (auto simp: min_def)
  moreover have "(of_nat correct / of_nat total_n :: rat) \<le> 1"
    using le assms(4) by simp
  ultimately show ?thesis using le by simp
qed

theorem evaluate_tflite_model_accuracy_witness:
  "evaluate_tflite_model
     \<lparr>Interpreter = (\<lambda>p. Inr (\<lambda>i::nat. i)),
      image_dataset_from_directory = (\<lambda>d. Inr [(0, 0::nat), (1, 0), (2, 2)]),
      label_argmax = (\<lambda>l. l)\<rparr> ''m.tflite'' ''test'' 2 = Inr (1 / 2)
   \<and> (1::nat) \<le> 2 \<and> int 2 = min 2 (int (length [(0::nat, 0::nat), (1, 0), (2, 2)]))"
  using evaluate_tflite_model_accuracy
    [of "\<lparr>Interpreter = (\<lambda>p. Inr (\<lambda>i::nat. i)),
      image_dataset_from_directory = (\<lambda>d. Inr [(0, 0::nat), (1, 0), (2, 2)]),
      label_argmax = (\<lambda>l. l)\<rparr>" "''m.tflite''" "\<lambda>i. i" "''test''" "[(0, 0), (1, 0), (2, 2)]" 2 1 2]
  by simp

lemma weights_of_zero:
  assumes "(i, 0) \<in> set items \<or> (n = 0 \<and> items \<noteq> [])"
  shows "weights_of t n items = Inl ZeroDivisionError"
  using assms
proof (induction items)
  case Nil
  then show ?case by simp
next
  case (Cons it items)
  obtain j c where it: "it = (j, c)" by (cases it)
  show ?case
  proof (cases "n * c = 0")
    case True
    then show ?thesis using it by (simp add: py_truediv_def)
  next
    case False
    with Cons.prems it have "(i, 0) \<in> set items" by auto
    with Cons.IH have "weights_of t n items = Inl ZeroDivisionError" by simp
    then show ?thesis using it False by (simp add: py_truediv_def)
  qed
qed


lemma count_images_ok:
  assumes "\<forall>c \<in> set class_names. \<exists>fs. listdir os (path_join data_dir c) = Inr fs"
  shows "count_images os data_dir class_names = Inr (map (image_count os data_dir) class_names)"
  using assms
proof (induction class_names)
  case Nil
  then show ?case by simp
next
  case (Cons c cs)
  then obtain fs where "listdir os (path_join data_dir c) = Inr fs" by auto
  moreover from Cons have "count_images os data_dir cs = Inr (map (image_count os data_dir) cs)"
    by simp
  ultimately show ?case by (simp add: image_count_def)
qed




text \<open>
  Claim C9. Two divisions are unguarded. \<open>evaluate_tflite_model\<close> raises
  ZeroDivisionError when the dataset yields no sample or \<open>num_samples\<close> is not positive;
  \<open>compute_class_weights\<close> raises it when a class subdirectory has no image file.
\<close>

theorem unguarded_divisions:
  "(Interpreter env tflite_path = Inr predict \<longrightarrow>
    image_dataset_from_directory env test_data_dir = Inr test_ds \<longrightarrow>
    (test_ds = [] \<or> num_samples \<le> 0) \<longrightarrow>
      evaluate_tflite_model env tflite_path test_data_dir num_samples = Inl ZeroDivisionError)
   \<and> (listdir os data_dir = Inr ds \<longrightarrow>
      (\<forall>c \<in> set ds. isdir os (path_join data_dir c) \<longrightarrow>
           (\<exists>fs. listdir os (path_join data_dir c) = Inr fs)) \<longrightarrow>
      (\<exists>c \<in> set ds. isdir os (path_join data_dir c) \<and> image_count os data_dir c = 0) \<longrightarrow>
      compute_class_weights os data_dir = Inl ZeroDivisionError)"
proof (intro conjI impI)
  assume "Interpreter env tflite_path = Inr predict"
    and "image_dataset_from_directory env test_data_dir = Inr test_ds"
    and "test_ds = [] \<or> num_samples \<le> 0"
  then show "evaluate_tflite_model env tflite_path test_data_dir num_samples = Inl ZeroDivisionError"
    by (auto simp: evaluate_tflite_model_def evaluate_loop_closed py_truediv_def)
next
  let ?names = "sort (filter (\<lambda>d. isdir os (path_join data_dir d)) ds)"
  let ?counts = "map (image_count os data_dir) ?names"
  assume ld: "listdir os data_dir = Inr ds"
    and ok: "\<forall>c \<in> set ds. isdir os (path_join data_dir c) \<longrightarrow>
           (\<exists>fs. listdir os (path_join data_dir c) = Inr fs)"
    and z: "\<exists>c \<in> set ds. isdir os (path_join data_dir c) \<and> image_count os data_dir c = 0"
  have names: "class_names_of os data_dir = Inr ?names"
    using ld by (simp add: class_names_of_def)
  have ci: "count_images os data_dir ?names = Inr ?counts"
    using ok by (intro count_images_ok) auto
  from z have "0 \<in> set ?counts" by force
  then obtain i where "i < length ?counts" "?counts ! i = 0"
    by (metis in_set_conv_nth)
  then have "(i, 0) \<in> set (enumerate 0 ?counts)"
    by (simp add: in_set_enumerate_eq)
  then have "weights_of (sum_list ?counts) (length ?counts) (enumerate 0 ?counts) = Inl ZeroDivisionError"
    by (intro weights_of_zero) blast
  with names ci show "compute_class_weights os data_dir = Inl ZeroDivisionError"
    by (simp add: compute_class_weights_def)
qed

lemma img_simps:
  "is_image_file ''1.png''" "is_image_file ''2.JPG''" "\<not> is_image_file ''x.txt''"
  "is_image_file ''3.jpeg''" "\<not> is_image_file ''readme.txt''"
  by code_simp+


theorem unguarded_divisions_witness:
  "evaluate_tflite_model
     \<lparr>Interpreter = (\<lambda>p. Inr (\<lambda>i::nat. i)),
      image_dataset_from_directory = (\<lambda>d. Inr ([] :: (nat \<times> nat) list)),
      label_argmax = (\<lambda>l. l)\<rparr> ''m.tflite'' ''test'' 100 = Inl ZeroDivisionError
   \<and> compute_class_weights example_os_empty_class ''data'' = Inl ZeroDivisionError"
proof -
  have ld: "listdir example_os_empty_class ''data'' = Inr [''a'', ''b'']"
    by (simp add: example_os_empty_class_def)
  have ok: "\<forall>c \<in> set [''a'', ''b'']. isdir example_os_empty_class (path_join ''data'' c) \<longrightarrow>
           (\<exists>fs. listdir example_os_empty_class (path_join ''data'' c) = Inr fs)"
    by (simp add: example_os_empty_class_def path_join_def)
  have z: "\<exists>c \<in> set [''a'', ''b'']. isdir example_os_empty_class (path_join ''data'' c)
             \<and> image_count example_os_empty_class ''data'' c = 0"
    by (simp add: example_os_empty_class_def path_join_def image_count_def img_simps)
  from unguarded_divisions
    [of "\<lparr>Interpreter = (\<lambda>p. Inr (\<lambda>i::nat. i)),
      image_dataset_from_directory = (\<lambda>d. Inr ([] :: (nat \<times> nat) list)),
      label_argmax = (\<lambda>l. l)\<rparr>" "''m.tflite''" "\<lambda>i. i" "''test''" "[]" 100
      example_os_empty_class "''data''" "[''a'', ''b'']"]
  have "evaluate_tflite_model
     \<lparr>Interpreter = (\<lambda>p. Inr (\<lambda>i::nat. i)),
      image_dataset_from_directory = (\<lambda>d. Inr ([] :: (nat \<times> nat) list)),
      label_argmax = (\<lambda>l. l)\<rparr> ''m.tflite'' ''test'' 100 = Inl ZeroDivisionError"
    and "listdir example_os_empty_class ''data'' = Inr [''a'', ''b''] \<longrightarrow>
      (\<forall>c \<in> set [''a'', ''b'']. isdir example_os_empty_class (path_join ''data'' c) \<longrightarrow>
           (\<exists>fs. listdir example_os_empty_class (path_join ''data'' c) = Inr fs)) \<longrightarrow>
      (\<exists>c \<in> set [''a'', ''b'']. isdir example_os_empty_class (path_join ''data'' c)
             \<and> image_count example_os_empty_class ''data'' c = 0) \<longrightarrow>
      compute_class_weights example_os_empty_class ''data'' = Inl ZeroDivisionError"
    by simp_all
  with ld ok z show ?thesis by blast
qed

lemma save_class_names_content:
  assumes "save_class_names fs class_names path = Inr fs1"
  shows "files fs1 path = Some (concat (map (\<lambda>name. name @ [CHR 0x0A]) class_names))"
proof -
  from assms obtain fs0 where
    w: "open_write fs0 path (concat (map (\<lambda>name. name @ [CHR 0x0A]) class_names)) = Inr fs1"
    by (auto simp: save_class_names_def split: sum.splits)
  then show ?thesis
    by (auto simp: open_write_def split: if_splits)
qed

lemma readlines_from_line:
  assumes "CHR 0x0A \<notin> set n" and "CHR 0x0D \<notin> set n"
  shows "readlines_from cur (n @ CHR 0x0A # rest) = (cur @ n @ [CHR 0x0A]) # readlines_from [] rest"
  using assms by (induction n arbitrary: cur) auto

lemma readlines_written:
  assumes "\<forall>name \<in> set class_names. CHR 0x0A \<notin> set name \<and> CHR 0x0D \<notin> set name"
  shows "readlines (concat (map (\<lambda>name. name @ [CHR 0x0A]) class_names))
         = map (\<lambda>name. name @ [CHR 0x0A]) class_names"
  using assms unfolding readlines_def
proof (induction class_names)
  case Nil
  then show ?case by simp
next
  case (Cons n ns)
  then have n: "CHR 0x0A \<notin> set n" "CHR 0x0D \<notin> set n" by simp_all
  from Cons have ih: "readlines_from [] (concat (map (\<lambda>name. name @ [CHR 0x0A]) ns))
         = map (\<lambda>name. name @ [CHR 0x0A]) ns" by simp
  show ?case
    using readlines_from_line [OF n, of "[]" "concat (map (\<lambda>name. name @ [CHR 0x0A]) ns)"] ih
    by simp
qed

lemma isspace_line_feed: "isspace (CHR 0x0A)"
  by (simp add: isspace_def)

lemma strip_line:
  assumes "no_outer_space name"
  shows "strip (name @ [CHR 0x0A]) = name"
proof (cases name)
  case Nil
  then show ?thesis by (simp add: strip_def isspace_line_feed)
next
  case (Cons c cs)
  with assms have h: "\<not> isspace c" and l: "\<not> isspace (last name)"
    by (simp_all add: no_outer_space_def)
  have ne: "name \<noteq> []" using Cons by simp
  have "dropWhile isspace (name @ [CHR 0x0A]) = name @ [CHR 0x0A]"
    using Cons h by simp
  moreover have "dropWhile isspace (rev name) = rev name"
    using l ne by (cases "rev name") (auto simp: last_rev [symmetric] simp del: last_rev)
  ultimately show ?thesis by (simp add: strip_def isspace_line_feed)
qed

text \<open>
  Claim C10, as amended. \<open>save_class_names\<close> followed by \<open>load_class_names\<close> on the
  same path returns the saved list, in order, when no name contains a line feed or a
  carriage return and no name has leading or trailing whitespace. A carriage return
  inside a name is read back as a line end, so the condition on line feeds alone is not
  enough (see the counterexample below).
\<close>

theorem class_names_round_trip:
  assumes "save_class_names fs class_names path = Inr fs1"
    and "\<forall>name \<in> set class_names.
           no_line_feed name \<and> no_carriage_return name \<and> no_outer_space name"
  shows "load_class_names fs1 path = Inr class_names"
proof -
  have c: "files fs1 path = Some (concat (map (\<lambda>name. name @ [CHR 0x0A]) class_names))"
    by (rule save_class_names_content [OF assms(1)])
  have r: "readlines (concat (map (\<lambda>name. name @ [CHR 0x0A]) class_names))
         = map (\<lambda>name. name @ [CHR 0x0A]) class_names"
    using assms(2) by (intro readlines_written) (simp add: no_line_feed_def no_carriage_return_def)
  have "map strip (map (\<lambda>name. name @ [CHR 0x0A]) class_names) = class_names"
    using assms(2) by (induction class_names) (simp_all add: strip_line)
  with c r show ?thesis by (simp add: load_class_names_def open_read_def)
qed

theorem class_names_round_trip_witness:
  "save_then_load empty_fs [''Apple scab'', ''healthy'', ''''] ''../models/class_names.txt''
     = Inr [''Apple scab'', ''healthy'', '''']"
proof -
  obtain fs1 where s: "save_class_names empty_fs [''Apple scab'', ''healthy'', ''''] ''../models/class_names.txt'' = Inr fs1"
    by (simp add: save_class_names_def makedirs_def open_write_def empty_fs_def ancestors_def dirname_def is_slashes_def upt_rec)
  have h: "\<forall>name \<in> set [''Apple scab'', ''healthy'', ''''].
           no_line_feed name \<and> no_carriage_return name \<and> no_outer_space name"
    by (simp add: no_line_feed_def no_carriage_return_def no_outer_space_def isspace_def)
  from class_names_round_trip [OF s h] s show ?thesis
    by (simp add: save_then_load_def)
qed

theorem class_names_round_trip_counterexample:
  "no_line_feed [CHR ''a'', CHR 0x0D, CHR ''b'']
   \<and> no_outer_space [CHR ''a'', CHR 0x0D, CHR ''b'']
   \<and> save_then_load empty_fs [[CHR ''a'', CHR 0x0D, CHR ''b'']] ''../models/class_names.txt''
       = Inr [''a'', ''b'']
   \<and> save_then_load empty_fs [[CHR ''a'', CHR 0x0D, CHR ''b'']] ''../models/class_names.txt''
       \<noteq> Inr [[CHR ''a'', CHR 0x0D, CHR ''b'']]"
  by (simp add: no_line_feed_def no_outer_space_def isspace_def save_then_load_def
      save_class_names_def makedirs_def open_write_def empty_fs_def ancestors_def dirname_def
      is_slashes_def upt_rec load_class_names_def open_read_def readlines_def strip_def)

lemma makedirs_dirs:
  assumes "makedirs fs name = Inr fs1"
  shows "dirs fs1 = dirs fs \<union> set (ancestors name)" and "files fs1 = files fs"
  using assms by (auto simp: makedirs_def split: if_splits option.splits)

lemma open_write_result:
  assumes "open_write fs p content = Inr fs1"
  shows "files fs1 p = Some content" and "dirs fs1 = dirs fs"
    and "dirname p = [] \<or> is_slashes (dirname p) \<or> dirname p \<in> dirs fs"
  using assms by (auto simp: open_write_def split: if_splits)

text \<open>
  Claim C2, as amended. With \<open>quantize=True\<close>, a representative data directory that is
  a non-empty string gives full integer quantization with uint8 input and output; when
  it is \<open>None\<close> or the empty string, only the default optimisation is set and input and
  output stay float32.
\<close>

theorem convert_to_tflite_quantization_mode:
  assumes "build_converter env model_file True representative_data_dir = Inr converter"
  shows "(\<forall>d. representative_data_dir = Some d \<and> d \<noteq> [] \<longrightarrow>
            optimizations converter = [DEFAULT]
            \<and> representative_dataset converter = Some (d, 1000)
            \<and> supported_ops converter = [TFLITE_BUILTINS_INT8]
            \<and> inference_input_type converter = uint8
            \<and> inference_output_type converter = uint8)
       \<and> (representative_data_dir = None \<or> representative_data_dir = Some [] \<longrightarrow>
            optimizations converter = [DEFAULT]
            \<and> representative_dataset converter = None
            \<and> supported_ops converter = [TFLITE_BUILTINS]
            \<and> inference_input_type converter = float32
            \<and> inference_output_type converter = float32)"
  using assms
  by (auto simp: build_converter_def configure_converter_def from_keras_model_def
           split: sum.splits if_splits)

theorem convert_to_tflite_quantization_mode_witness:
  "inference_input_type
     \<lparr>keras_model = (), optimizations = [DEFAULT],
      representative_dataset = Some (''calibration'', 1000),
      supported_ops = [TFLITE_BUILTINS_INT8],
      inference_input_type = uint8, inference_output_type = uint8\<rparr> = uint8
   \<and> build_converter example_keras ''m.h5'' True (Some ''calibration'')
       = Inr \<lparr>keras_model = (), optimizations = [DEFAULT],
              representative_dataset = Some (''calibration'', 1000),
              supported_ops = [TFLITE_BUILTINS_INT8],
              inference_input_type = uint8, inference_output_type = uint8\<rparr>"
proof -
  have b: "build_converter example_keras ''m.h5'' True (Some ''calibration'')
       = Inr \<lparr>keras_model = (), optimizations = [DEFAULT],
              representative_dataset = Some (''calibration'', 1000),
              supported_ops = [TFLITE_BUILTINS_INT8],
              inference_input_type = uint8, inference_output_type = uint8\<rparr>"
    by (simp add: build_converter_def configure_converter_def from_keras_model_def
        example_keras_def)
  from convert_to_tflite_quantization_mode [OF b] b show ?thesis by simp
qed

theorem convert_to_tflite_quantization_mode_counterexample:
  "build_converter example_keras ''m.h5'' True (Some '''')
     = Inr \<lparr>keras_model = (), optimizations = [DEFAULT], representative_dataset = None,
            supported_ops = [TFLITE_BUILTINS], inference_input_type = float32,
            inference_output_type = float32\<rparr>
   \<and> Some '''' \<noteq> (None :: string option)
   \<and> float32 \<noteq> uint8"
  by (simp add: build_converter_def configure_converter_def from_keras_model_def
      example_keras_def)

text \<open>
  Claim C6. Whenever \<open>convert_to_tflite\<close> returns normally, the returned value is the
  \<open>output_path\<close> argument, the file at that path holds exactly what the converter
  produced, and the directories leading to it exist.
\<close>

theorem convert_to_tflite_writes_output:
  assumes "convert_to_tflite env fs model_file output_file quantize_flag representative_data_dir
             = Inr (ret, fs2)"
  shows "ret = output_file
       \<and> (\<exists>converter tflite_model.
            build_converter env model_file quantize_flag representative_data_dir = Inr converter
            \<and> convert env converter = Inr tflite_model
            \<and> files fs2 output_file = Some tflite_model)
       \<and> set (ancestors (dirname output_file)) \<subseteq> dirs fs2
       \<and> dirs fs \<subseteq> dirs fs2"
proof -
  obtain converter where
    b: "build_converter env model_file quantize_flag representative_data_dir = Inr converter"
    using assms
    by (cases "build_converter env model_file quantize_flag representative_data_dir")
       (simp_all add: convert_to_tflite_def)
  obtain tflite_model where c: "convert env converter = Inr tflite_model"
    using assms b by (cases "convert env converter") (simp_all add: convert_to_tflite_def)
  obtain fs1 where m: "makedirs fs (dirname output_file) = Inr fs1"
    using assms b c
    by (cases "makedirs fs (dirname output_file)") (simp_all add: convert_to_tflite_def)
  have w: "open_write fs1 output_file tflite_model = Inr fs2" and r: "ret = output_file"
    using assms b c m
    by (cases "open_write fs1 output_file tflite_model"; simp add: convert_to_tflite_def)+
  from makedirs_dirs [OF m] open_write_result [OF w] b c r
  show ?thesis by auto
qed

theorem convert_to_tflite_writes_output_witness:
  "(\<exists>fs2. convert_to_tflite example_keras empty_fs ''m.h5'' ''out/lite/m.tflite'' True None
            = Inr (''out/lite/m.tflite'', fs2)
          \<and> files fs2 ''out/lite/m.tflite'' = Some ''TFL3''
          \<and> {''out'', ''out/lite''} \<subseteq> dirs fs2)"
proof -
  obtain fs2 where r: "convert_to_tflite example_keras empty_fs ''m.h5'' ''out/lite/m.tflite'' True None
            = Inr (''out/lite/m.tflite'', fs2)"
    by (simp add: convert_to_tflite_def build_converter_def configure_converter_def
        from_keras_model_def example_keras_def makedirs_def open_write_def empty_fs_def
        ancestors_def dirname_def is_slashes_def upt_rec)
  have a: "set (ancestors (dirname ''out/lite/m.tflite'')) = {''out'', ''out/lite''}"
    by (simp add: ancestors_def dirname_def is_slashes_def upt_rec) 
  have cv: "\<And>c. convert example_keras c = Inr ''TFL3''"
    by (simp add: example_keras_def)
  from convert_to_tflite_writes_output [OF r] a cv r show ?thesis by auto
qed

lemma option_action_quantize:
  "option_action tok = Some (StoreTrue f) \<Longrightarrow> ns_quantize ns \<Longrightarrow> ns_quantize (f ns)"
  "option_action tok = Some (Store g) \<Longrightarrow> ns_quantize ns \<Longrightarrow> ns_quantize (g v ns)"
  by (auto simp: option_action_def split: if_splits)

lemma consume_args_quantize:
  "consume_args argv ns = Inr ns1 \<Longrightarrow> ns_quantize ns \<Longrightarrow> ns_quantize ns1"
proof (induction argv ns rule: consume_args.induct)
  case (1 ns)
  then show ?case by simp
next
  case (2 tok rest ns)
  note run = \<open>consume_args (tok # rest) ns = Inr ns1\<close>
  note q = \<open>ns_quantize ns\<close>
  show ?case
  proof (cases "option_action tok")
    case None
    with run show ?thesis by simp
  next
    case (Some a)
    show ?thesis
    proof (cases a)
      case (Store g)
      show ?thesis
      proof (cases rest)
        case Nil
        with run Some Store show ?thesis by simp
      next
        case (Cons v rest')
        with run Some Store have r: "consume_args rest' (g v ns) = Inr ns1" by simp
        have q': "ns_quantize (g v ns)"
          using Some Store q by (simp add: option_action_quantize(2))
        show ?thesis
          by (rule "2.IH"(1) [OF Some Store Cons r q'])
      qed
    next
      case (StoreTrue f)
      with run Some have r: "consume_args rest (f ns) = Inr ns1" by simp
      have q': "ns_quantize (f ns)"
        using Some StoreTrue q by (simp add: option_action_quantize(1))
      show ?thesis
        by (rule "2.IH"(2) [OF Some StoreTrue r q'])
    next
      case Help
      with run Some show ?thesis by simp
    qed
  qed
qed

lemma parse_args_quantize_always:
  assumes "parse_args argv = Inr a"
  shows "args_quantize a"
proof -
  from assms obtain ns where c: "consume_args argv default_namespace = Inr ns"
    by (cases "consume_args argv default_namespace") (simp_all add: parse_args_def)
  have "ns_quantize default_namespace" by (simp add: default_namespace_def)
  with c have q: "ns_quantize ns" by (rule consume_args_quantize)
  from assms c have "args_quantize a = ns_quantize ns"
    by (cases "ns_model_path ns"; cases "ns_output_path ns") (auto simp: parse_args_def)
  with q show ?thesis by simp
qed

text \<open>
  Claim C7, at the input where it fails. Without \<open>--quantize\<close> on the command line the
  parsed namespace still has \<open>quantize = True\<close>, and \<open>main\<close> calls \<open>convert_to_tflite\<close>
  with \<open>quantize=True\<close>.
\<close>

theorem main_quantize_without_flag:
  "parse_args [''--model_path'', ''m.h5'', ''--output_path'', ''out/m.tflite'']
     = Inr \<lparr>args_model_path = ''m.h5'', args_output_path = ''out/m.tflite'',
            args_quantize = True, args_representative_data = None,
            args_evaluate = False, args_test_data = None, args_benchmark = False\<rparr>
   \<and> main env tenv benchmark_inference_time fs
        [''--model_path'', ''m.h5'', ''--output_path'', ''out/m.tflite'']
     = map_sum id snd (convert_to_tflite env fs ''m.h5'' ''out/m.tflite'' True None)"
proof -
  have p: "parse_args [''--model_path'', ''m.h5'', ''--output_path'', ''out/m.tflite'']
     = Inr \<lparr>args_model_path = ''m.h5'', args_output_path = ''out/m.tflite'',
            args_quantize = True, args_representative_data = None,
            args_evaluate = False, args_test_data = None, args_benchmark = False\<rparr>"
    by (simp add: parse_args_def default_namespace_def option_action_def)
  show ?thesis
    unfolding main_def p
    by (simp split: sum.splits prod.splits)
qed


lemma per_class_metrics_example:
  "per_class_metrics [0, 0, 1] [0, 1, 1] [''a'', ''b'', ''c'']
     = ([1, 1 / 2, 0], [1 / 2, 1, 0], [2 / 3, 2 / 3, 0], [2, 1, 0])"
  by (simp add: per_class_metrics_def precision_recall_fscore_support_def upt_rec
      label_precision_def label_recall_def label_f1_def prf_divide_def true_positives_def)

lemma bind_err_simps [simp]:
  "bind_err (Inl e) f = Inl e"
  "bind_err (Inr x) f = f x"
  by (simp_all add: bind_err_def)

lemma bind_err_Inr_iff:
  "bind_err m f = Inr y \<longleftrightarrow> (\<exists>x. m = Inr x \<and> f x = Inr y)"
  by (cases m) simp_all

lemma bind_err_Inl_iff:
  "bind_err m f = Inl e \<longleftrightarrow> m = Inl e \<or> (\<exists>x. m = Inr x \<and> f x = Inl e)"
  by (cases m) simp_all

lemma create_model_frozen:
  assumes "train_create_model env config = Inr model"
  shows "\<exists>n. model = \<lparr>base_layers = replicate n False, compiled = None, fit_calls = []\<rparr>"
proof -
  from assms obtain architecture input_shape num_classes dropout_rate weights where
    "get_model env architecture input_shape num_classes dropout_rate weights = Inr model"
    unfolding train_create_model_def bind_err_Inr_iff by blast
  then show ?thesis
    by (auto simp: get_model_def create_mobilenetv2_model_def create_efficientnet_model_def
        bind_err_Inr_iff split: yaml.splits if_splits)
qed

lemma compile_model_result:
  assumes "compile_model env model config = Inr model1"
  shows "\<exists>opt loss metrics. model1 = model\<lparr>compiled := Some (opt, loss, metrics)\<rparr>"
  using assms unfolding compile_model_def Let_def bind_err_Inr_iff by blast

lemma fit_result:
  assumes "fit env model epochs initial_epoch callbacks class_weight = Inr model1"
  shows "model1 = model\<lparr>fit_calls := fit_calls model @
           [\<lparr>fit_epochs = epochs, fit_initial_epoch = initial_epoch,
             fit_layers_trainable = base_layers model,
             fit_optimizer = map_option fst (compiled model),
             fit_class_weight = class_weight\<rparr>]\<rparr>"
  using assms unfolding fit_def Let_def bind_err_Inr_iff by auto

lemma unfreeze_base_model_int:
  assumes "0 \<le> k"
  shows "unfreeze_base_model layers (YInt k)
         = Inr (map (\<lambda>i. k \<le> int i) [0..<length layers])"
proof -
  let ?n = "length layers"
  let ?i = "min (nat k) ?n"
  have b: "slice_bounds ?n (YInt k) = Inr (?i, ?i)"
    using assms by (simp add: slice_index_def)
  have "take ?i (map (\<lambda>l. False) (take ?i (map (\<lambda>l. True) layers)) @ drop ?i (map (\<lambda>l. True) layers))
          @ map (\<lambda>l. True) (drop ?i (map (\<lambda>l. False) (take ?i (map (\<lambda>l. True) layers))
                                       @ drop ?i (map (\<lambda>l. True) layers)))
        = map (\<lambda>i. k \<le> int i) [0..<?n]"
    using assms by (intro nth_equalityI) (auto simp: nth_append min_def)
  with b show ?thesis by (simp add: unfreeze_base_model_def Let_def)
qed

lemma train_phases_result:
  assumes "train_phases env config model callbacks cw = Inr final"
  shows "\<exists>training initial_epochs freeze_base.
           subscript config ''training'' = Inr training
         \<and> dict_get training ''unfreeze_epoch'' (YInt 10) = Inr initial_epochs
         \<and> dict_get training ''freeze_base'' (YBool True) = Inr freeze_base
         \<and> (if truthy freeze_base then
              \<exists>unfreeze_from layers fine_tune_lr total_epochs.
                  dict_get training ''freeze_until_layer'' (YInt 100) = Inr unfreeze_from
                \<and> unfreeze_base_model (base_layers model) unfreeze_from = Inr layers
                \<and> dict_get training ''fine_tune_learning_rate'' (YFloat (1 / 10000)) = Inr fine_tune_lr
                \<and> subscript training ''epochs'' = Inr total_epochs
                \<and> fit_calls final = fit_calls model @
                     [\<lparr>fit_epochs = initial_epochs, fit_initial_epoch = YInt 0,
                       fit_layers_trainable = base_layers model,
                       fit_optimizer = map_option fst (compiled model),
                       fit_class_weight = cw\<rparr>,
                      \<lparr>fit_epochs = total_epochs, fit_initial_epoch = initial_epochs,
                       fit_layers_trainable = layers,
                       fit_optimizer = Some (Adam fine_tune_lr),
                       fit_class_weight = cw\<rparr>]
            else fit_calls final = fit_calls model @
                     [\<lparr>fit_epochs = initial_epochs, fit_initial_epoch = YInt 0,
                       fit_layers_trainable = base_layers model,
                       fit_optimizer = map_option fst (compiled model),
                       fit_class_weight = cw\<rparr>])"
proof -
  from assms obtain training initial_epochs model1 freeze_base where
    t: "subscript config ''training'' = Inr training"
    and ie: "dict_get training ''unfreeze_epoch'' (YInt 10) = Inr initial_epochs"
    and f1: "fit env model initial_epochs (YInt 0) callbacks cw = Inr model1"
    and fb: "dict_get training ''freeze_base'' (YBool True) = Inr freeze_base"
    and rest: "(if truthy freeze_base then
       bind_err (subscript config ''training'') (\<lambda>t3.
       bind_err (dict_get t3 ''freeze_until_layer'' (YInt 100)) (\<lambda>unfreeze_from.
       bind_err (unfreeze_base_model (base_layers model1) unfreeze_from) (\<lambda>layers.
       bind_err (subscript config ''training'') (\<lambda>t4.
       bind_err (dict_get t4 ''fine_tune_learning_rate'' (YFloat (1 / 10000))) (\<lambda>fine_tune_lr.
       bind_err (optimizer_init env (Adam fine_tune_lr)) (\<lambda>u.
       bind_err (subscript config ''loss'') (\<lambda>loss_config.
       bind_err (subscript loss_config ''name'') (\<lambda>loss.
       bind_err (dict_get config ''metrics'' (YList [YStr ''accuracy''])) (\<lambda>metrics.
       bind_err (model_compile env (Adam fine_tune_lr) loss metrics) (\<lambda>u.
       bind_err (subscript config ''training'') (\<lambda>t5.
       bind_err (subscript t5 ''epochs'') (\<lambda>total_epochs.
       fit env (model1\<lparr>base_layers := layers,
                         compiled := Some (Adam fine_tune_lr, loss, metrics)\<rparr>)
           total_epochs initial_epochs callbacks cw))))))))))))
     else Inr model1) = Inr final"
    unfolding train_phases_def bind_err_Inr_iff by auto
  note m1 = fit_result [OF f1]
  show ?thesis
  proof (cases "truthy freeze_base")
    case False
    with rest have "final = model1" by simp
    with m1 t ie fb False show ?thesis by simp
  next
    case True
    with rest t obtain unfreeze_from layers fine_tune_lr loss metrics total_epochs where
      uf: "dict_get training ''freeze_until_layer'' (YInt 100) = Inr unfreeze_from"
      and l: "unfreeze_base_model (base_layers model1) unfreeze_from = Inr layers"
      and lr: "dict_get training ''fine_tune_learning_rate'' (YFloat (1 / 10000)) = Inr fine_tune_lr"
      and te: "subscript training ''epochs'' = Inr total_epochs"
      and f2: "fit env (model1\<lparr>base_layers := layers,
                         compiled := Some (Adam fine_tune_lr, loss, metrics)\<rparr>)
                 total_epochs initial_epochs callbacks cw = Inr final"
      by (auto simp: bind_err_Inr_iff)
    note m2 = fit_result [OF f2]
    from m1 have bl: "base_layers model1 = base_layers model" by simp
    from m1 m2 t ie fb True uf l lr te bl show ?thesis by auto
  qed
qed

lemma example_run_simps:
  "setup_logging (example_train_env (example_config tr)) example_fs (example_config tr) = Inr example_fs"
  "train_seed (example_train_env (example_config tr)) (example_config tr) = Inr ()"
  "train_load_datasets (example_train_env (example_config tr)) (example_config tr) = Inr [''healthy'', ''rust'']"
  "train_class_weights (example_train_env (example_config tr)) (example_config tr) = Inr None"
  "load_config (example_train_env (example_config tr)) example_fs ''config.yaml'' = Inr (example_config tr)"
  by (simp_all add: setup_logging_def train_seed_def train_load_datasets_def load_dataset_def
      train_class_weights_def load_config_def open_read_def
      example_train_env_def example_config_def example_fs_def)

lemma example_lower:
  "lower ''MobileNetV2'' = ''mobilenetv2''" "lower ''adam'' = ''adam''"
  by code_simp+

lemma example_model_simps:
  "train_create_model (example_train_env (example_config tr)) (example_config tr)
     = Inr \<lparr>base_layers = [False, False, False, False, False], compiled = None, fit_calls = []\<rparr>"
  "compile_model (example_train_env (example_config tr)) model (example_config tr)
     = Inr (model\<lparr>compiled := Some (Adam (YFloat (1 / 1000)), YStr ''categorical_crossentropy'',
                                     YList [YStr ''accuracy''])\<rparr>)"
  by (simp_all add: train_create_model_def get_model_def create_mobilenetv2_model_def
      example_lower compile_model_def
      example_train_env_def example_config_def numeral_eq_Suc)

lemma example_callbacks:
  "\<exists>callbacks fs2.
     setup_callbacks example_fs (example_config tr) = Inr (callbacks, fs2)
     \<and> files fs2 = files example_fs
     \<and> ''../models/MobileNetV2/MobileNetV2_20240101_120000.h5'' \<notin> dirs fs2"
  by (simp add: setup_callbacks_def checkpoint_callback_def early_stopping_callback_def
      lr_schedule_callback_def tensorboard_callback_def csv_logger_callback_def
      join_paths_def path_join_def makedirs_def ancestors_def dirname_def is_slashes_def
      upt_rec example_config_def example_fs_def)

lemma example_save:
  assumes "files fs2 = files example_fs"
    and "''../models/MobileNetV2/MobileNetV2_20240101_120000.h5'' \<notin> dirs fs2"
  shows "\<exists>fs3. save_final_model (example_train_env (example_config tr)) fs2 (example_config tr)
           = Inr fs3"
  using assms
  by (simp add: save_final_model_def join_paths_def path_join_def makedirs_def ancestors_def
      dirname_def is_slashes_def upt_rec open_write_def
      example_train_env_def example_config_def example_fs_def)

lemma example_phases_fine_tune:
  "train_phases (example_train_env (example_config [(''epochs'', YInt 50), (''freeze_until_layer'', YInt 3)]))
     (example_config [(''epochs'', YInt 50), (''freeze_until_layer'', YInt 3)])
     \<lparr>base_layers = [False, False, False, False, False],
      compiled = Some (Adam (YFloat (1 / 1000)), YStr ''categorical_crossentropy'',
                       YList [YStr ''accuracy'']),
      fit_calls = []\<rparr> callbacks None
   = Inr \<lparr>base_layers = [False, False, False, True, True],
          compiled = Some (Adam (YFloat (1 / 10000)), YStr ''categorical_crossentropy'',
                           YList [YStr ''accuracy'']),
          fit_calls =
            [\<lparr>fit_epochs = YInt 10, fit_initial_epoch = YInt 0,
              fit_layers_trainable = [False, False, False, False, False],
              fit_optimizer = Some (Adam (YFloat (1 / 1000))), fit_class_weight = None\<rparr>,
             \<lparr>fit_epochs = YInt 50, fit_initial_epoch = YInt 10,
              fit_layers_trainable = [False, False, False, True, True],
              fit_optimizer = Some (Adam (YFloat (1 / 10000))), fit_class_weight = None\<rparr>]\<rparr>"
  by (simp add: train_phases_def fit_def unfreeze_base_model_def slice_index_def
      example_train_env_def example_config_def)

lemma example_phases_frozen:
  "train_phases (example_train_env (example_config [(''epochs'', YInt 50), (''freeze_base'', YBool False)]))
     (example_config [(''epochs'', YInt 50), (''freeze_base'', YBool False)])
     \<lparr>base_layers = [False, False, False, False, False],
      compiled = Some (Adam (YFloat (1 / 1000)), YStr ''categorical_crossentropy'',
                       YList [YStr ''accuracy'']),
      fit_calls = []\<rparr> callbacks None
   = Inr \<lparr>base_layers = [False, False, False, False, False],
          compiled = Some (Adam (YFloat (1 / 1000)), YStr ''categorical_crossentropy'',
                           YList [YStr ''accuracy'']),
          fit_calls =
            [\<lparr>fit_epochs = YInt 10, fit_initial_epoch = YInt 0,
              fit_layers_trainable = [False, False, False, False, False],
              fit_optimizer = Some (Adam (YFloat (1 / 1000))), fit_class_weight = None\<rparr>]\<rparr>"
  by (simp add: train_phases_def fit_def example_train_env_def example_config_def)

lemma example_train_model:
  assumes "\<And>callbacks. train_phases (example_train_env (example_config tr)) (example_config tr)
     \<lparr>base_layers = [False, False, False, False, False],
      compiled = Some (Adam (YFloat (1 / 1000)), YStr ''categorical_crossentropy'',
                       YList [YStr ''accuracy'']),
      fit_calls = []\<rparr> callbacks None = Inr final"
  shows "\<exists>fs3. train_model (example_train_env (example_config tr)) example_fs ''config.yaml''
           = Inr (final, fs3)"
proof -
  obtain callbacks fs2 where
    c: "setup_callbacks example_fs (example_config tr) = Inr (callbacks, fs2)"
    and f: "files fs2 = files example_fs"
    and d: "''../models/MobileNetV2/MobileNetV2_20240101_120000.h5'' \<notin> dirs fs2"
    using example_callbacks by blast
  obtain fs3 where
    s: "save_final_model (example_train_env (example_config tr)) fs2 (example_config tr) = Inr fs3"
    using example_save [OF f d] by blast
  show ?thesis
    by (simp add: train_model_def example_run_simps example_model_simps c assms s)
qed

text \<open>
  Claim C1, as amended. A run of \<open>train_model\<close> that returns has made its \<open>fit\<close> calls
  in this order: first one for \<open>training.unfreeze_epoch\<close> epochs (default 10) from
  epoch 0 with every layer of the base model frozen; then, when \<open>training.freeze_base\<close>
  is true (the default), a second one from \<open>initial_epoch = unfreeze_epoch\<close> up to
  \<open>training.epochs\<close>, after the base layers from index \<open>training.freeze_until_layer\<close>
  (default 100) on were unfrozen and the model was recompiled with Adam at
  \<open>training.fine_tune_learning_rate\<close> (default 0.0001). When \<open>training.freeze_base\<close>
  is false, the first call is the only one.
\<close>

theorem train_model_two_phases:
  assumes "train_model env fs config_path = Inr (final, fs3)"
  shows "\<exists>config training initial_epochs freeze_base n opt cw.
           load_config env fs config_path = Inr config
         \<and> subscript config ''training'' = Inr training
         \<and> dict_get training ''unfreeze_epoch'' (YInt 10) = Inr initial_epochs
         \<and> dict_get training ''freeze_base'' (YBool True) = Inr freeze_base
         \<and> (if truthy freeze_base then
              \<exists>unfreeze_from layers fine_tune_lr total_epochs.
                  dict_get training ''freeze_until_layer'' (YInt 100) = Inr unfreeze_from
                \<and> unfreeze_base_model (replicate n False) unfreeze_from = Inr layers
                \<and> (\<forall>k. unfreeze_from = YInt k \<and> 0 \<le> k \<longrightarrow>
                       layers = map (\<lambda>i. k \<le> int i) [0..<n])
                \<and> dict_get training ''fine_tune_learning_rate'' (YFloat (1 / 10000))
                    = Inr fine_tune_lr
                \<and> subscript training ''epochs'' = Inr total_epochs
                \<and> fit_calls final =
                     [\<lparr>fit_epochs = initial_epochs, fit_initial_epoch = YInt 0,
                       fit_layers_trainable = replicate n False,
                       fit_optimizer = Some opt, fit_class_weight = cw\<rparr>,
                      \<lparr>fit_epochs = total_epochs, fit_initial_epoch = initial_epochs,
                       fit_layers_trainable = layers,
                       fit_optimizer = Some (Adam fine_tune_lr), fit_class_weight = cw\<rparr>]
            else fit_calls final =
                     [\<lparr>fit_epochs = initial_epochs, fit_initial_epoch = YInt 0,
                       fit_layers_trainable = replicate n False,
                       fit_optimizer = Some opt, fit_class_weight = cw\<rparr>])"
proof -
  from assms obtain config cw model model1 callbacks where
    lc: "load_config env fs config_path = Inr config"
    and cm: "train_create_model env config = Inr model"
    and co: "compile_model env model config = Inr model1"
    and ph: "train_phases env config model1 callbacks cw = Inr final"
    by (auto simp: train_model_def bind_err_Inr_iff)
  from create_model_frozen [OF cm] obtain n where
    m: "model = \<lparr>base_layers = replicate n False, compiled = None, fit_calls = []\<rparr>" by blast
  from compile_model_result [OF co] obtain opt loss metrics where
    m1: "model1 = model\<lparr>compiled := Some (opt, loss, metrics)\<rparr>" by blast
  have bl: "base_layers model1 = replicate n False" and fc: "fit_calls model1 = []"
    and cp: "map_option fst (compiled model1) = Some opt"
    using m m1 by simp_all
  from train_phases_result [OF ph] obtain training initial_epochs freeze_base where
    t: "subscript config ''training'' = Inr training"
    and ie: "dict_get training ''unfreeze_epoch'' (YInt 10) = Inr initial_epochs"
    and fb: "dict_get training ''freeze_base'' (YBool True) = Inr freeze_base"
    and r: "if truthy freeze_base then
              \<exists>unfreeze_from layers fine_tune_lr total_epochs.
                  dict_get training ''freeze_until_layer'' (YInt 100) = Inr unfreeze_from
                \<and> unfreeze_base_model (base_layers model1) unfreeze_from = Inr layers
                \<and> dict_get training ''fine_tune_learning_rate'' (YFloat (1 / 10000)) = Inr fine_tune_lr
                \<and> subscript training ''epochs'' = Inr total_epochs
                \<and> fit_calls final = fit_calls model1 @
                     [\<lparr>fit_epochs = initial_epochs, fit_initial_epoch = YInt 0,
                       fit_layers_trainable = base_layers model1,
                       fit_optimizer = map_option fst (compiled model1),
                       fit_class_weight = cw\<rparr>,
                      \<lparr>fit_epochs = total_epochs, fit_initial_epoch = initial_epochs,
                       fit_layers_trainable = layers,
                       fit_optimizer = Some (Adam fine_tune_lr),
                       fit_class_weight = cw\<rparr>]
            else fit_calls final = fit_calls model1 @
                     [\<lparr>fit_epochs = initial_epochs, fit_initial_epoch = YInt 0,
                       fit_layers_trainable = base_layers model1,
                       fit_optimizer = map_option fst (compiled model1),
                       fit_class_weight = cw\<rparr>]"
    by blast
  show ?thesis
  proof (cases "truthy freeze_base")
    case False
    with r bl fc cp have "fit_calls final =
                     [\<lparr>fit_epochs = initial_epochs, fit_initial_epoch = YInt 0,
                       fit_layers_trainable = replicate n False,
                       fit_optimizer = Some opt, fit_class_weight = cw\<rparr>]"
      by simp
    with lc t ie fb False show ?thesis by auto
  next
    case True
    with r bl fc cp obtain unfreeze_from layers fine_tune_lr total_epochs where
      uf: "dict_get training ''freeze_until_layer'' (YInt 100) = Inr unfreeze_from"
      and l: "unfreeze_base_model (replicate n False) unfreeze_from = Inr layers"
      and lr: "dict_get training ''fine_tune_learning_rate'' (YFloat (1 / 10000)) = Inr fine_tune_lr"
      and te: "subscript training ''epochs'' = Inr total_epochs"
      and f: "fit_calls final =
                     [\<lparr>fit_epochs = initial_epochs, fit_initial_epoch = YInt 0,
                       fit_layers_trainable = replicate n False,
                       fit_optimizer = Some opt, fit_class_weight = cw\<rparr>,
                      \<lparr>fit_epochs = total_epochs, fit_initial_epoch = initial_epochs,
                       fit_layers_trainable = layers,
                       fit_optimizer = Some (Adam fine_tune_lr), fit_class_weight = cw\<rparr>]"
      by auto
    have k: "\<forall>k. unfreeze_from = YInt k \<and> 0 \<le> k \<longrightarrow> layers = map (\<lambda>i. k \<le> int i) [0..<n]"
      using l by (auto simp: unfreeze_base_model_int)
    from lc t ie fb True uf l k lr te f show ?thesis
      by (intro exI [of _ config] exI [of _ training] exI [of _ initial_epochs]
          exI [of _ freeze_base] exI [of _ n] exI [of _ opt] exI [of _ cw]) auto
  qed
qed

theorem train_model_two_phases_witness:
  "fit_calls_of (train_model
      (example_train_env (example_config [(''epochs'', YInt 50), (''freeze_until_layer'', YInt 3)]))
      example_fs ''config.yaml'')
   = Inr [\<lparr>fit_epochs = YInt 10, fit_initial_epoch = YInt 0,
            fit_layers_trainable = [False, False, False, False, False],
            fit_optimizer = Some (Adam (YFloat (1 / 1000))), fit_class_weight = None\<rparr>,
          \<lparr>fit_epochs = YInt 50, fit_initial_epoch = YInt 10,
            fit_layers_trainable = [False, False, False, True, True],
            fit_optimizer = Some (Adam (YFloat (1 / 10000))), fit_class_weight = None\<rparr>]"
proof -
  let ?tr = "[(''epochs'', YInt 50), (''freeze_until_layer'', YInt 3)]"
  obtain fs3 where run:
    "train_model (example_train_env (example_config ?tr)) example_fs ''config.yaml''
       = Inr (\<lparr>base_layers = [False, False, False, True, True],
          compiled = Some (Adam (YFloat (1 / 10000)), YStr ''categorical_crossentropy'',
                           YList [YStr ''accuracy'']),
          fit_calls =
            [\<lparr>fit_epochs = YInt 10, fit_initial_epoch = YInt 0,
              fit_layers_trainable = [False, False, False, False, False],
              fit_optimizer = Some (Adam (YFloat (1 / 1000))), fit_class_weight = None\<rparr>,
             \<lparr>fit_epochs = YInt 50, fit_initial_epoch = YInt 10,
              fit_layers_trainable = [False, False, False, True, True],
              fit_optimizer = Some (Adam (YFloat (1 / 10000))), fit_class_weight = None\<rparr>]\<rparr>, fs3)"
    using example_train_model [OF example_phases_fine_tune] by blast
  from train_model_two_phases [OF run] run show ?thesis
    by (simp add: fit_calls_of_def)
qed

theorem train_model_two_phases_counterexample:
  "fit_calls_of (train_model
      (example_train_env (example_config [(''epochs'', YInt 50), (''freeze_base'', YBool False)]))
      example_fs ''config.yaml'')
   = Inr [\<lparr>fit_epochs = YInt 10, fit_initial_epoch = YInt 0,
            fit_layers_trainable = [False, False, False, False, False],
            fit_optimizer = Some (Adam (YFloat (1 / 1000))), fit_class_weight = None\<rparr>]"
proof -
  let ?tr = "[(''epochs'', YInt 50), (''freeze_base'', YBool False)]"
  obtain fs3 where run:
    "train_model (example_train_env (example_config ?tr)) example_fs ''config.yaml''
       = Inr (\<lparr>base_layers = [False, False, False, False, False],
          compiled = Some (Adam (YFloat (1 / 1000)), YStr ''categorical_crossentropy'',
                           YList [YStr ''accuracy'']),
          fit_calls =
            [\<lparr>fit_epochs = YInt 10, fit_initial_epoch = YInt 0,
              fit_layers_trainable = [False, False, False, False, False],
              fit_optimizer = Some (Adam (YFloat (1 / 1000))), fit_class_weight = None\<rparr>]\<rparr>, fs3)"
    using example_train_model [OF example_phases_frozen] by blast
  then show ?thesis
    by (simp add: fit_calls_of_def)
qed













end
